theory Spec2Isabelle
  imports Main "HOL-Library.Sublist"
begin

section \<open>Strings\<close>

text \<open>
  A Python \<open>str\<close> is a sequence of code points. The model keeps the code points below 256,
  one \<^typ>\<open>char\<close> each, so the Spanish texts of \<open>dashboard.py\<close> are written with the
  Latin-1 code of their accented letters (\<open>0xE9\<close> for e-acute, \<open>0xF1\<close> for n-tilde, ...).

  \<open>str.lower()\<close> on these code points: \<open>A..Z\<close> and the upper-case letters
  \<open>0xC0..0xD6\<close>, \<open>0xD8..0xDE\<close> move 32 places up, every other code point stays.
\<close>

definition lower_char :: "char \<Rightarrow> char" where
  "lower_char c = (let n = (of_char c :: nat) in
     if (65 \<le> n \<and> n \<le> 90) \<or> (192 \<le> n \<and> n \<le> 214) \<or> (216 \<le> n \<and> n \<le> 222)
     then char_of (n + 32) else c)"

definition str_lower :: "string \<Rightarrow> string" where
  "str_lower s = map lower_char s"

text \<open>\<open>str(n)\<close> and the \<open>{n}\<close> of an f-string, for an integer: its decimal digits.\<close>

fun str_nat :: "nat \<Rightarrow> string" where
  "str_nat n = (if n < 10 then [''0123456789'' ! n]
                else str_nat (n div 10) @ [''0123456789'' ! (n mod 10)])"

definition str_int :: "int \<Rightarrow> string" where
  "str_int i = (if i < 0 then ''-'' @ str_nat (nat (- i)) else str_nat (nat i))"

text \<open>The \<open>{v}\<close> of an f-string for a text cell that may be \<open>None\<close>.\<close>

fun str_cell :: "string option \<Rightarrow> string" where
  "str_cell None = ''None''"
| "str_cell (Some s) = s"


section \<open>Tables, page elements and the query executor\<close>

text \<open>
  A \<open>pandas.DataFrame\<close>: the column labels and the rows, each row a record of the columns
  the statement selects. \<open>pd.DataFrame()\<close> has no column and no row; \<open>DataFrame.empty\<close>
  holds when either axis has length 0.
\<close>

record 'r dataframe =
  columns :: "string list"
  rows :: "'r list"

definition empty_dataframe :: "'r dataframe" where
  "empty_dataframe = \<lparr>columns = [], rows = []\<rparr>"

definition df_empty :: "'r dataframe \<Rightarrow> bool" where
  "df_empty df = (columns df = [] \<or> rows df = [])"

text \<open>
  What a call that may raise gives: its value, or the exception (an instance of
  \<open>Exception\<close>, kept as its message \<open>str(e)\<close>).
\<close>

datatype 'a outcome = Returns 'a | Raises string

datatype param = P_int int | P_str string

text \<open>
  What the script puts on the page, in order: the Streamlit calls that carry data or a
  message. Static headers, chart titles and colours carry no data and are left out.
\<close>

datatype figure =
    Pie "(string \<times> nat) list"
  | Bar "(string \<times> nat) list"
  | Bar_year "(int \<times> nat) list"

datatype 'r element =
    St_error string
  | St_warning string
  | St_info string
  | St_success string
  | St_subheader string
  | St_plotly_chart figure
  | St_dataframe "'r dataframe"

text \<open>
  \<open>run_query(_conn, query, params)\<close>. The connection is modelled by what it does with a
  statement and its parameters: \<open>pd.read_sql_query(query, _conn, params=params)\<close> is
  \<open>conn query params\<close>. The \<open>try\<close> holds the only call that can raise and
  \<open>except Exception\<close> returns, so the function has a value on both paths: the two
  \<open>st.error\<close> banners it emitted and the table it returns. (The \<open>st.cache_data\<close>
  decorator only replays this value for ten minutes.)
\<close>

definition run_query ::
  "(string \<Rightarrow> param list \<Rightarrow> 'r dataframe outcome) \<Rightarrow> string \<Rightarrow> param list
     \<Rightarrow> 'e element list \<times> 'r dataframe" where
  "run_query conn query params =
     (case conn query params of
        Returns df \<Rightarrow> ([], df)
      | Raises e \<Rightarrow>
          ([St_error (''Error al ejecutar la consulta: '' @ query),
            St_error (''Detalles del error: '' @ e)],
           empty_dataframe))"



section \<open>The pandas operations the script calls\<close>

text \<open>
  A column (\<open>Series\<close>) is the list of its cells, \<open>None\<close> for a missing value
  (\<open>None\<close>/\<open>NaN\<close>). \<open>unique\<close> keeps the first occurrence of each value, in order.
\<close>

fun dropna :: "'a option list \<Rightarrow> 'a list" where
  "dropna [] = []"
| "dropna (None # xs) = dropna xs"
| "dropna (Some x # xs) = x # dropna xs"

definition unique :: "'a list \<Rightarrow> 'a list" where
  "unique xs = rev (remdups (rev xs))"

text \<open>The groups of a column with the size of each, in order of first occurrence.\<close>

definition group_count :: "'a list \<Rightarrow> ('a \<times> nat) list" where
  "group_count xs = map (\<lambda>v. (v, count_list xs v)) (unique xs)"

text \<open>
  Sorting a counted series by count, largest first. pandas leaves the order among equal
  counts open; the model keeps them in the order they had (a stable sort), and no property
  below depends on that choice.
\<close>

definition sort_desc :: "('a \<times> nat) list \<Rightarrow> ('a \<times> nat) list" where
  "sort_desc s = sort_key (\<lambda>p. - int (snd p)) s"

text \<open>
  \<open>Series.value_counts()\<close> with its defaults \<open>sort=True, ascending=False, dropna=True\<close>:
  missing values are not counted, each remaining value gets the number of its
  occurrences, largest count first.
\<close>

definition value_counts :: "'a option list \<Rightarrow> ('a \<times> nat) list" where
  "value_counts col = sort_desc (group_count (dropna col))"

text \<open>\<open>Series.sort_index()\<close>, \<open>DataFrame.tail(n)\<close> and \<open>Series.nlargest(n)\<close>.\<close>

definition sort_index :: "('k::linorder \<times> nat) list \<Rightarrow> ('k \<times> nat) list" where
  "sort_index s = sort_key fst s"

definition tail :: "nat \<Rightarrow> 'a list \<Rightarrow> 'a list" where
  "tail n xs = drop (length xs - n) xs"

definition nlargest :: "nat \<Rightarrow> ('a \<times> nat) list \<Rightarrow> ('a \<times> nat) list" where
  "nlargest n s = take n (sort_desc s)"

text \<open>
  \<open>pd.merge(left, right, on=key, how='inner')\<close>: every pair of a left and a right row with
  equal keys, in the order of the left rows. pandas matches a missing key with a missing key,
  which equality on \<open>option\<close> does too. With \<open>how='left'\<close> a left row without partner is kept
  once, with the right side missing.
\<close>

definition merge_inner :: "('l \<Rightarrow> 'k) \<Rightarrow> ('r \<Rightarrow> 'k) \<Rightarrow> 'l list \<Rightarrow> 'r list \<Rightarrow> ('l \<times> 'r) list" where
  "merge_inner lkey rkey left right =
     concat (map (\<lambda>l. map (Pair l) (filter (\<lambda>r. rkey r = lkey l) right)) left)"

definition merge_left :: "('l \<Rightarrow> 'k) \<Rightarrow> ('r \<Rightarrow> 'k) \<Rightarrow> 'l list \<Rightarrow> 'r list \<Rightarrow> ('l \<times> 'r option) list" where
  "merge_left lkey rkey left right =
     concat (map (\<lambda>l. case filter (\<lambda>r. rkey r = lkey l) right of
                         [] \<Rightarrow> [(l, None)]
                       | m # ms \<Rightarrow> map (\<lambda>r. (l, Some r)) (m # ms)) left)"

text \<open>\<open>df.dropna(subset=[c])\<close>: the rows whose cell in column \<open>c\<close> is present.\<close>

definition df_dropna :: "('r \<Rightarrow> 'a option) \<Rightarrow> 'r dataframe \<Rightarrow> 'r dataframe" where
  "df_dropna col df = df\<lparr>rows := filter (\<lambda>r. col r \<noteq> None) (rows df)\<rparr>"


section \<open>The database\<close>

text \<open>
  The schema the script reads. Every column that the script tests for a missing value or
  joins on is nullable. A relation is the list of its rows, or raises when it is read (the
  table is missing, the connection is broken). The relation \<open>shows\<close> is the field
  \<open>shows_table\<close>. SQL fixes no order for the groups of a \<open>GROUP BY\<close> without
  \<open>ORDER BY\<close>: the database lists the groups of the query of a year by a rank of its own,
  the field \<open>group_rank\<close>, so that every order of the groups is the order of some database.
\<close>

record show_row =
  show_id :: int
  type :: "string option"
  title :: "string option"
  director_id :: "int option"
  release_year :: "int option"
  rating :: "string option"
  duration :: "string option"
  month_added :: "int option"
  year_added :: "int option"
  description :: "string option"

record director_row =
  director_id :: "int option"
  director_name :: "string option"

record cast_member_row =
  cast_member_id :: "int option"
  cast_member_name :: "string option"

record country_row =
  country_id :: "int option"
  country_name :: "string option"

record genre_row =
  genre_id :: "int option"
  genre_name :: "string option"

record show_cast_member_row =
  show_id :: int
  cast_member_id :: "int option"

record show_country_row =
  show_id :: int
  country_id :: "int option"

record show_genre_row =
  show_id :: int
  genre_id :: "int option"

record database =
  shows_table :: "show_row list outcome"
  directors :: "director_row list outcome"
  cast_members :: "cast_member_row list outcome"
  countries :: "country_row list outcome"
  genres :: "genre_row list outcome"
  show_cast_members :: "show_cast_member_row list outcome"
  show_countries :: "show_country_row list outcome"
  show_genres :: "show_genre_row list outcome"
  group_rank :: "int \<Rightarrow> string option \<Rightarrow> nat"

text \<open>The rows of \<open>df_shows\<close> (eight selected columns) and of \<open>df_search_results\<close> (six).\<close>

record df_shows_row =
  show_id :: int
  type :: "string option"
  title :: "string option"
  director_id :: "int option"
  release_year :: "int option"
  rating :: "string option"
  duration :: "string option"
  month_added :: "int option"

record df_search_row =
  show_id :: int
  type :: "string option"
  title :: "string option"
  release_year :: "int option"
  rating :: "string option"
  description :: "string option"

definition select_shows :: "show_row \<Rightarrow> df_shows_row" where
  "select_shows s =
     \<lparr>df_shows_row.show_id = show_row.show_id s, type = show_row.type s,
      title = show_row.title s, director_id = show_row.director_id s,
      release_year = show_row.release_year s, rating = show_row.rating s,
      duration = show_row.duration s, month_added = show_row.month_added s\<rparr>"


text \<open>
  \<open>SELECT cols FROM relation [WHERE cond]\<close>: the selected columns of the rows that satisfy
  the condition, or the error of the relation.
\<close>

definition select_from ::
  "'t list outcome \<Rightarrow> string list \<Rightarrow> ('t \<Rightarrow> bool) \<Rightarrow> ('t \<Rightarrow> 'r) \<Rightarrow> 'r dataframe outcome" where
  "select_from relation cols cond sel =
     (case relation of
        Raises e \<Rightarrow> Raises e
      | Returns ts \<Rightarrow> Returns \<lparr>columns = cols, rows = map sel (filter cond ts)\<rparr>)"




section \<open>The statements of the script and what the connection answers\<close>

definition query_shows :: string where
  "query_shows = ''SELECT show_id, type, title, director_id, release_year, rating, duration, month_added FROM shows;''"

definition query_directors :: string where
  "query_directors = ''SELECT director_id, director_name FROM directors;''"

definition query_show_cast :: string where
  "query_show_cast = ''SELECT show_id, cast_member_id FROM show_cast_members;''"

definition query_cast_members :: string where
  "query_cast_members = ''SELECT cast_member_id, cast_member_name FROM cast_members;''"

definition query_show_countries :: string where
  "query_show_countries = ''SELECT show_id, country_id FROM show_countries;''"

definition query_countries :: string where
  "query_countries = ''SELECT country_id, country_name FROM countries;''"

definition query_show_genres :: string where
  "query_show_genres = ''SELECT show_id, genre_id FROM show_genres;''"

definition query_genres :: string where
  "query_genres = ''SELECT genre_id, genre_name FROM genres;''"


definition query_year_added :: string where
  "query_year_added =
     [CHR 0x0A] @ ''                SELECT type, COUNT(*) as count'' @
     [CHR 0x0A] @ ''                FROM shows'' @
     [CHR 0x0A] @ ''                WHERE year_added = %s'' @
     [CHR 0x0A] @ ''                GROUP BY type;'' @
     [CHR 0x0A] @ ''            ''"

text \<open>
  The connection, for each result type: the answer of the database \<open>db\<close> to the statements
  of the script with that result type. A \<open>%s\<close> is bound to the parameter of the tuple; the
  statement text is never built from it. Any other statement is outside the model.
\<close>

definition not_modelled :: "'a outcome" where
  "not_modelled = Raises ''statement outside the model''"

definition df_shows_columns :: "string list" where
  "df_shows_columns =
     [''show_id'', ''type'', ''title'', ''director_id'', ''release_year'', ''rating'',
      ''duration'', ''month_added'']"

definition conn_shows :: "database \<Rightarrow> string \<Rightarrow> param list \<Rightarrow> df_shows_row dataframe outcome" where
  "conn_shows db query params =
     (if query = query_shows \<and> params = [] then
        select_from (shows_table db) df_shows_columns (\<lambda>s. True) select_shows
      else not_modelled)"

definition conn_directors :: "database \<Rightarrow> string \<Rightarrow> param list \<Rightarrow> director_row dataframe outcome" where
  "conn_directors db query params =
     (if query = query_directors \<and> params = [] then
        select_from (directors db) [''director_id'', ''director_name''] (\<lambda>r. True) id
      else not_modelled)"

definition conn_show_cast ::
  "database \<Rightarrow> string \<Rightarrow> param list \<Rightarrow> show_cast_member_row dataframe outcome" where
  "conn_show_cast db query params =
     (if query = query_show_cast \<and> params = [] then
        select_from (show_cast_members db) [''show_id'', ''cast_member_id''] (\<lambda>r. True) id
      else not_modelled)"

definition conn_cast_members ::
  "database \<Rightarrow> string \<Rightarrow> param list \<Rightarrow> cast_member_row dataframe outcome" where
  "conn_cast_members db query params =
     (if query = query_cast_members \<and> params = [] then
        select_from (cast_members db) [''cast_member_id'', ''cast_member_name''] (\<lambda>r. True) id
      else not_modelled)"

definition conn_show_countries ::
  "database \<Rightarrow> string \<Rightarrow> param list \<Rightarrow> show_country_row dataframe outcome" where
  "conn_show_countries db query params =
     (if query = query_show_countries \<and> params = [] then
        select_from (show_countries db) [''show_id'', ''country_id''] (\<lambda>r. True) id
      else not_modelled)"

definition conn_countries :: "database \<Rightarrow> string \<Rightarrow> param list \<Rightarrow> country_row dataframe outcome" where
  "conn_countries db query params =
     (if query = query_countries \<and> params = [] then
        select_from (countries db) [''country_id'', ''country_name''] (\<lambda>r. True) id
      else not_modelled)"

definition conn_show_genres ::
  "database \<Rightarrow> string \<Rightarrow> param list \<Rightarrow> show_genre_row dataframe outcome" where
  "conn_show_genres db query params =
     (if query = query_show_genres \<and> params = [] then
        select_from (show_genres db) [''show_id'', ''genre_id''] (\<lambda>r. True) id
      else not_modelled)"

definition conn_genres :: "database \<Rightarrow> string \<Rightarrow> param list \<Rightarrow> genre_row dataframe outcome" where
  "conn_genres db query params =
     (if query = query_genres \<and> params = [] then
        select_from (genres db) [''genre_id'', ''genre_name''] (\<lambda>r. True) id
      else not_modelled)"


text \<open>
  \<open>SELECT type, COUNT(*) ... WHERE year_added = %s GROUP BY type\<close>: the rows of the year
  (a \<open>NULL\<close> year is equal to none), one group per type (\<open>NULL\<close> is a group of its own) with
  its number of rows. \<open>year_added_counts\<close> is the set of groups, written as a list;
  the database answers with them in its own order, \<open>group_order db year\<close>.
\<close>

definition year_added_counts :: "show_row list \<Rightarrow> int \<Rightarrow> (string option \<times> nat) list" where
  "year_added_counts ss year =
     group_count (map show_row.type (filter (\<lambda>s. show_row.year_added s = Some year) ss))"

definition group_order ::
  "database \<Rightarrow> int \<Rightarrow> (string option \<times> nat) list \<Rightarrow> (string option \<times> nat) list" where
  "group_order db year groups = sort_key (\<lambda>g. group_rank db year (fst g)) groups"

definition conn_year_added ::
  "database \<Rightarrow> string \<Rightarrow> param list \<Rightarrow> (string option \<times> nat) dataframe outcome" where
  "conn_year_added db query params =
     (case params of
        [P_int year] \<Rightarrow>
          if query = query_year_added then
            (case shows_table db of
               Raises e \<Rightarrow> Raises e
             | Returns ss \<Rightarrow>
                 Returns \<lparr>columns = [''type'', ''count''],
                          rows = group_order db year (year_added_counts ss year)\<rparr>)
          else not_modelled
      | _ \<Rightarrow> not_modelled)"


section \<open>Home view: titles added in a year\<close>

text \<open>
  The body of \<open>if st.button(...)\<close>. \<open>if year_input:\<close> takes the number 0 as no year
  entered. Each row of the grouped count gives one line of the message; \<open>tipo\<close> is the
  conditional expression of the loop.
\<close>

definition tipo :: "string option \<Rightarrow> string" where
  "tipo t = (if t = Some ''Movie'' then ''Pel'' @ [CHR 0xED] @ ''culas''
             else if t = Some ''TV Show'' then ''Series de TV''
             else str_cell t)"

definition summary_line :: "string option \<times> nat \<Rightarrow> string" where
  "summary_line row = ''- '' @ str_nat (snd row) @ '' '' @ tipo (fst row) @ [CHR 0x0A]"

text \<open>The two f-strings of the view that carry the year.\<close>

definition year_header :: "int \<Rightarrow> string" where
  "year_header year_input =
     ''En el a'' @ [CHR 0xF1] @ ''o '' @ str_int year_input @ '' se a'' @ [CHR 0xF1]
     @ ''adieron:'' @ [CHR 0x0A]"

definition none_found :: "int \<Rightarrow> string" where
  "none_found year_input =
     ''No se encontraron t'' @ [CHR 0xED] @ ''tulos a'' @ [CHR 0xF1] @ ''adidos en el a''
     @ [CHR 0xF1] @ ''o '' @ str_int year_input @ ''.''"

definition home_year_button :: "database \<Rightarrow> int \<Rightarrow> 'r element list" where
  "home_year_button db year_input =
     (if year_input \<noteq> 0 then
        (let (banners, df_year_results) =
               run_query (conn_year_added db) query_year_added [P_int year_input]
         in banners @
            (if \<not> df_empty df_year_results then
               [St_success (year_header year_input
                            @ concat (map summary_line (rows df_year_results)))]
             else [St_info (none_found year_input)]))
      else [St_warning (''Por favor, ingresa un a'' @ [CHR 0xF1] @ ''o v'' @ [CHR 0xE1] @ ''lido.'')])"


section \<open>Search view\<close>



section \<open>Analytics view\<close>

subsection \<open>1. Type distribution\<close>

definition type_counts :: "df_shows_row dataframe \<Rightarrow> (string \<times> nat) list" where
  "type_counts df_shows = value_counts (map df_shows_row.type (rows df_shows))"

definition fig_type :: "df_shows_row dataframe \<Rightarrow> 'r element" where
  "fig_type df_shows = St_plotly_chart (Pie (type_counts df_shows))"

subsection \<open>2. Releases by year\<close>

text \<open>
  \<open>astype(int)\<close> leaves the integer years of the non-missing cells as they are.
\<close>

definition release_year_counts :: "df_shows_row dataframe \<Rightarrow> (int \<times> nat) list" where
  "release_year_counts df_shows_release =
     sort_index (value_counts (map df_shows_row.release_year (rows df_shows_release)))"

definition latest_years_count :: "df_shows_row dataframe \<Rightarrow> (int \<times> nat) list" where
  "latest_years_count df_shows_release = tail 30 (release_year_counts df_shows_release)"

definition fig_release_year :: "df_shows_row dataframe \<Rightarrow> 'r element" where
  "fig_release_year df_shows =
     (let df_shows_release = df_dropna df_shows_row.release_year df_shows in
      if \<not> df_empty df_shows_release then
        St_plotly_chart (Bar_year (latest_years_count df_shows_release))
      else
        St_warning (''No hay datos de 'release_year' para mostrar el gr'' @ [CHR 0xE1] @ ''fico.''))"

subsection \<open>3. Rating distribution\<close>

definition rating_counts :: "df_shows_row dataframe \<Rightarrow> (string \<times> nat) list" where
  "rating_counts df_ratings = nlargest 10 (value_counts (map df_shows_row.rating (rows df_ratings)))"

definition fig_rating :: "df_shows_row dataframe \<Rightarrow> 'r element" where
  "fig_rating df_shows =
     (if ''rating'' \<in> set (columns df_shows) then
        (let df_ratings = df_dropna df_shows_row.rating df_shows in
         if \<not> df_empty df_ratings then St_plotly_chart (Bar (rating_counts df_ratings))
         else St_warning (''No hay datos de 'rating' para mostrar el gr'' @ [CHR 0xE1] @ ''fico.''))
      else
        St_warning (''La columna 'rating' no se encontr'' @ [CHR 0xF3] @ '' en la tabla 'shows'.''))"

subsection \<open>4. Additions by month\<close>

definition month_map :: "(int \<times> string) list" where
  "month_map = [(1, ''Ene''), (2, ''Feb''), (3, ''Mar''), (4, ''Abr''), (5, ''May''), (6, ''Jun''),
                (7, ''Jul''), (8, ''Ago''), (9, ''Sep''), (10, ''Oct''), (11, ''Nov''), (12, ''Dic'')]"

text \<open>
  \<open>Series.map(month_map)\<close> gives a missing value for a number that is not a key.
  \<open>month_order_map\<close> numbers the names from 0; \<open>sort_values\<close> puts a missing order last.
\<close>

definition month_added_name :: "df_shows_row \<Rightarrow> string option" where
  "month_added_name r = map_of month_map (the (df_shows_row.month_added r))"

definition all_months_df :: "string list" where
  "all_months_df = map snd month_map"

definition month_order_map :: "(string \<times> nat) list" where
  "month_order_map = zip (map snd month_map) [0 ..< length month_map]"

definition month_order :: "string \<times> nat \<Rightarrow> nat" where
  "month_order r = (case map_of month_order_map (fst r) of Some i \<Rightarrow> i | None \<Rightarrow> length month_map)"

definition fillna0 :: "(string \<times> (string \<times> nat) option) \<Rightarrow> (string \<times> nat)" where
  "fillna0 r = (fst r, case snd r of None \<Rightarrow> 0 | Some c \<Rightarrow> snd c)"

definition month_added_counts :: "df_shows_row dataframe \<Rightarrow> (string \<times> nat) list" where
  "month_added_counts df_shows_month =
     (let counts = value_counts (map month_added_name (rows df_shows_month));
          merged = map fillna0 (merge_left id fst all_months_df counts)
      in sort_key month_order merged)"

definition fig_month_added :: "df_shows_row dataframe \<Rightarrow> 'r element" where
  "fig_month_added df_shows =
     (if ''month_added'' \<in> set (columns df_shows) then
        (let df_shows_month = df_dropna df_shows_row.month_added df_shows in
         if \<not> df_empty df_shows_month then St_plotly_chart (Bar (month_added_counts df_shows_month))
         else St_warning (''No hay datos de 'month_added' para mostrar el gr'' @ [CHR 0xE1] @ ''fico.''))
      else
        St_warning (''La columna 'month_added' no se encontr'' @ [CHR 0xF3] @ '' en la tabla 'shows'.''))"

subsection \<open>5. Top directors\<close>

text \<open>
  \<open>.str.lower()\<close> of a missing name is missing, and a missing value is different from
  \<open>'unknown'\<close>: the row stays, and \<open>value_counts\<close> does not count it.
\<close>

definition df_shows_with_directors ::
  "df_shows_row dataframe \<Rightarrow> director_row dataframe \<Rightarrow> (df_shows_row \<times> director_row) list" where
  "df_shows_with_directors df_shows df_directors =
     merge_inner df_shows_row.director_id director_row.director_id (rows df_shows) (rows df_directors)"

definition df_filtered_directors ::
  "df_shows_row dataframe \<Rightarrow> director_row dataframe \<Rightarrow> (df_shows_row \<times> director_row) list" where
  "df_filtered_directors df_shows df_directors =
     filter (\<lambda>r. map_option str_lower (director_name (snd r)) \<noteq> Some ''unknown'')
       (df_shows_with_directors df_shows df_directors)"

definition director_counts ::
  "df_shows_row dataframe \<Rightarrow> director_row dataframe \<Rightarrow> (string \<times> nat) list" where
  "director_counts df_shows df_directors =
     nlargest 10 (value_counts (map (\<lambda>r. director_name (snd r))
                                   (df_filtered_directors df_shows df_directors)))"

definition fig_directors :: "df_shows_row dataframe \<Rightarrow> director_row dataframe \<Rightarrow> 'r element" where
  "fig_directors df_shows df_directors =
     (if \<not> df_empty df_directors \<and> \<not> df_empty df_shows then
        (if df_filtered_directors df_shows df_directors \<noteq> [] then
           St_plotly_chart (Bar (director_counts df_shows df_directors))
         else
           St_warning (''No hay datos de directores (despu'' @ [CHR 0xE9]
                       @ ''s de filtrar 'Unknown') para mostrar.''))
      else St_warning ''No se pudieron cargar datos de directores o shows.'')"

subsection \<open>6. to 8. Top cast members, countries and genres\<close>

definition cast_counts ::
  "show_cast_member_row dataframe \<Rightarrow> cast_member_row dataframe \<Rightarrow> (string \<times> nat) list" where
  "cast_counts df_show_cast df_cast_members =
     nlargest 10 (value_counts (map (\<lambda>r. cast_member_name (snd r))
       (merge_inner show_cast_member_row.cast_member_id cast_member_row.cast_member_id
          (rows df_show_cast) (rows df_cast_members))))"

definition fig_cast ::
  "show_cast_member_row dataframe \<Rightarrow> cast_member_row dataframe \<Rightarrow> 'r element" where
  "fig_cast df_show_cast df_cast_members =
     (if \<not> df_empty df_show_cast \<and> \<not> df_empty df_cast_members then
        St_plotly_chart (Bar (cast_counts df_show_cast df_cast_members))
      else St_warning ''No se pudieron cargar datos del elenco.'')"

definition country_counts ::
  "show_country_row dataframe \<Rightarrow> country_row dataframe \<Rightarrow> (string \<times> nat) list" where
  "country_counts df_show_countries df_countries =
     nlargest 10 (value_counts (map (\<lambda>r. country_name (snd r))
       (merge_inner show_country_row.country_id country_row.country_id
          (rows df_show_countries) (rows df_countries))))"

definition fig_countries ::
  "show_country_row dataframe \<Rightarrow> country_row dataframe \<Rightarrow> 'r element" where
  "fig_countries df_show_countries df_countries =
     (if \<not> df_empty df_show_countries \<and> \<not> df_empty df_countries then
        St_plotly_chart (Bar (country_counts df_show_countries df_countries))
      else St_warning (''No se pudieron cargar datos de pa'' @ [CHR 0xED] @ ''ses.''))"

definition genre_counts ::
  "show_genre_row dataframe \<Rightarrow> genre_row dataframe \<Rightarrow> (string \<times> nat) list" where
  "genre_counts df_show_genres df_genres =
     nlargest 10 (value_counts (map (\<lambda>r. genre_name (snd r))
       (merge_inner show_genre_row.genre_id genre_row.genre_id
          (rows df_show_genres) (rows df_genres))))"

definition fig_genres ::
  "show_genre_row dataframe \<Rightarrow> genre_row dataframe \<Rightarrow> 'r element" where
  "fig_genres df_show_genres df_genres =
     (if \<not> df_empty df_show_genres \<and> \<not> df_empty df_genres then
        St_plotly_chart (Bar (genre_counts df_show_genres df_genres))
      else St_warning (''No se pudieron cargar datos de g'' @ [CHR 0xE9] @ ''neros.''))"

subsection \<open>The view\<close>

text \<open>
  The eight tables are loaded first, each by \<open>run_query\<close>, whose error banners come first
  on the page. The eight aggregations are all inside \<open>if not df_shows.empty:\<close>.
\<close>

definition no_shows_warning :: string where
  "no_shows_warning =
     ''No se pudieron cargar datos de la tabla 'shows' para el an'' @ [CHR 0xE1] @ ''lisis.''"

definition analytics_view :: "database \<Rightarrow> 'r element list" where
  "analytics_view db =
     (let (b1, df_shows) = run_query (conn_shows db) query_shows [];
          (b2, df_directors) = run_query (conn_directors db) query_directors [];
          (b3, df_show_cast) = run_query (conn_show_cast db) query_show_cast [];
          (b4, df_cast_members) = run_query (conn_cast_members db) query_cast_members [];
          (b5, df_show_countries) = run_query (conn_show_countries db) query_show_countries [];
          (b6, df_countries) = run_query (conn_countries db) query_countries [];
          (b7, df_show_genres) = run_query (conn_show_genres db) query_show_genres [];
          (b8, df_genres) = run_query (conn_genres db) query_genres []
      in b1 @ b2 @ b3 @ b4 @ b5 @ b6 @ b7 @ b8 @
         (if \<not> df_empty df_shows then
            [fig_type df_shows,
             fig_release_year df_shows,
             fig_rating df_shows,
             fig_month_added df_shows,
             fig_directors df_shows df_directors,
             fig_cast df_show_cast df_cast_members,
             fig_countries df_show_countries df_countries,
             fig_genres df_show_genres df_genres]
          else [St_warning no_shows_warning]))"

section \<open>The tables the analytics view works on\<close>

text \<open>
  The table each \<open>run_query\<close> call of the analytics view returns for a database, without
  the banners: \<open>df_shows\<close>, \<open>df_directors\<close>, and the three bridge and dimension pairs.
\<close>

definition df_shows_of :: "database \<Rightarrow> df_shows_row dataframe" where
  "df_shows_of db =
     snd (run_query (conn_shows db) query_shows [] :: unit element list \<times> df_shows_row dataframe)"

definition df_directors_of :: "database \<Rightarrow> director_row dataframe" where
  "df_directors_of db =
     snd (run_query (conn_directors db) query_directors []
            :: unit element list \<times> director_row dataframe)"

definition df_show_cast_of :: "database \<Rightarrow> show_cast_member_row dataframe" where
  "df_show_cast_of db =
     snd (run_query (conn_show_cast db) query_show_cast []
            :: unit element list \<times> show_cast_member_row dataframe)"

definition df_cast_members_of :: "database \<Rightarrow> cast_member_row dataframe" where
  "df_cast_members_of db =
     snd (run_query (conn_cast_members db) query_cast_members []
            :: unit element list \<times> cast_member_row dataframe)"

definition df_show_countries_of :: "database \<Rightarrow> show_country_row dataframe" where
  "df_show_countries_of db =
     snd (run_query (conn_show_countries db) query_show_countries []
            :: unit element list \<times> show_country_row dataframe)"

definition df_countries_of :: "database \<Rightarrow> country_row dataframe" where
  "df_countries_of db =
     snd (run_query (conn_countries db) query_countries []
            :: unit element list \<times> country_row dataframe)"

definition df_show_genres_of :: "database \<Rightarrow> show_genre_row dataframe" where
  "df_show_genres_of db =
     snd (run_query (conn_show_genres db) query_show_genres []
            :: unit element list \<times> show_genre_row dataframe)"

definition df_genres_of :: "database \<Rightarrow> genre_row dataframe" where
  "df_genres_of db =
     snd (run_query (conn_genres db) query_genres [] :: unit element list \<times> genre_row dataframe)"

text \<open>
  The error banners of the eight \<open>run_query\<close> calls of the analytics view, in the order of
  the calls; and what kind of element a figure of the page is.
\<close>

definition analytics_banners :: "database \<Rightarrow> 'r element list" where
  "analytics_banners db =
     fst (run_query (conn_shows db) query_shows [] :: 'r element list \<times> df_shows_row dataframe)
     @ fst (run_query (conn_directors db) query_directors [] :: 'r element list \<times> director_row dataframe)
     @ fst (run_query (conn_show_cast db) query_show_cast []
              :: 'r element list \<times> show_cast_member_row dataframe)
     @ fst (run_query (conn_cast_members db) query_cast_members []
              :: 'r element list \<times> cast_member_row dataframe)
     @ fst (run_query (conn_show_countries db) query_show_countries []
              :: 'r element list \<times> show_country_row dataframe)
     @ fst (run_query (conn_countries db) query_countries [] :: 'r element list \<times> country_row dataframe)
     @ fst (run_query (conn_show_genres db) query_show_genres []
              :: 'r element list \<times> show_genre_row dataframe)
     @ fst (run_query (conn_genres db) query_genres [] :: 'r element list \<times> genre_row dataframe)"

fun is_chart :: "'r element \<Rightarrow> bool" where
  "is_chart (St_plotly_chart f) = True"
| "is_chart _ = False"

fun is_warning :: "'r element \<Rightarrow> bool" where
  "is_warning (St_warning w) = True"
| "is_warning _ = False"



section \<open>Counting bridge rows by dimension name\<close>

text \<open>
  The number of bridge rows whose dimension row (a row of the dimension table with the
  bridge row's key) has the name \<open>n\<close>: each such bridge row counts once, a repeated bridge
  row counts each time, a bridge row without dimension row does not count.
\<close>

definition bridge_rows_named ::
  "('l \<Rightarrow> 'k) \<Rightarrow> ('r \<Rightarrow> 'k) \<Rightarrow> ('r \<Rightarrow> string option) \<Rightarrow> 'l list \<Rightarrow> 'r list \<Rightarrow> string \<Rightarrow> nat" where
  "bridge_rows_named lkey rkey name bridge dimension n =
     length (filter (\<lambda>b. \<exists>d\<in>set dimension. rkey d = lkey b \<and> name d = Some n) bridge)"

text \<open>
  The number of pairs of a bridge row and a dimension row with the bridge row's key whose
  dimension row has the name \<open>n\<close>: a bridge row counts once for every dimension row that
  has its key and the name.
\<close>

definition pairs_named ::
  "('l \<Rightarrow> 'k) \<Rightarrow> ('r \<Rightarrow> 'k) \<Rightarrow> ('r \<Rightarrow> string option) \<Rightarrow> 'l list \<Rightarrow> 'r list \<Rightarrow> string \<Rightarrow> nat" where
  "pairs_named lkey rkey name bridge dimension n =
     sum_list (map (\<lambda>b. length (filter (\<lambda>d. rkey d = lkey b \<and> name d = Some n) dimension)) bridge)"

text \<open>
  A chart of the \<open>k\<close> largest counts: as many bars as there are names with a positive
  count, but at most \<open>k\<close>; each name once, with its count; the counts in descending order;
  no name left out has a larger count than one kept.
\<close>

definition top_counts :: "nat \<Rightarrow> (string \<Rightarrow> nat) \<Rightarrow> (string \<times> nat) list \<Rightarrow> bool" where
  "top_counts k count chart =
     (length chart = min k (card {n. 0 < count n})
      \<and> distinct (map fst chart)
      \<and> sorted_wrt (\<lambda>p q. snd q \<le> snd p) chart
      \<and> (\<forall>n c. (n, c) \<in> set chart \<longrightarrow> 0 < c \<and> c = count n)
      \<and> (\<forall>n n' c'. n \<notin> fst ` set chart \<and> (n', c') \<in> set chart \<longrightarrow> count n \<le> c'))"


section \<open>Substring search\<close>





section \<open>Example data\<close>

text \<open>
  A row of \<open>shows\<close> and of \<open>df_shows\<close> with every nullable column missing, and a database
  that holds the given rows of \<open>shows\<close> and no other row, and lists groups in order of
  first occurrence.
\<close>

definition a_show :: "int \<Rightarrow> show_row" where
  "a_show i = \<lparr>show_row.show_id = i, type = None, title = None, director_id = None,
     release_year = None, rating = None, duration = None, month_added = None,
     year_added = None, description = None\<rparr>"

definition blank_row :: "int \<Rightarrow> df_shows_row" where
  "blank_row i = \<lparr>df_shows_row.show_id = i, type = None, title = None, director_id = None,
     release_year = None, rating = None, duration = None, month_added = None\<rparr>"

definition db_of_shows :: "show_row list \<Rightarrow> database" where
  "db_of_shows ss = \<lparr>shows_table = Returns ss, directors = Returns [], cast_members = Returns [],
     countries = Returns [], genres = Returns [], show_cast_members = Returns [],
     show_countries = Returns [], show_genres = Returns [], group_rank = (\<lambda>year t. 0)\<rparr>"

text \<open>Two movies, a series and a title without type; a movie and a title without type.\<close>

definition df_two_types :: "df_shows_row dataframe" where
  "df_two_types = \<lparr>columns = df_shows_columns,
     rows = [(blank_row 1)\<lparr>df_shows_row.type := Some ''Movie''\<rparr>, blank_row 2,
             (blank_row 3)\<lparr>df_shows_row.type := Some ''TV Show''\<rparr>,
             (blank_row 4)\<lparr>df_shows_row.type := Some ''Movie''\<rparr>]\<rparr>"

definition df_null_type :: "df_shows_row dataframe" where
  "df_null_type = \<lparr>columns = df_shows_columns,
     rows = [(blank_row 1)\<lparr>df_shows_row.type := Some ''Movie''\<rparr>, blank_row 2]\<rparr>"

text \<open>
  One title for each release year from 2020 down to 1986 (35 years), a second title of 2020
  and a title without release year.
\<close>

definition shows_35_years :: "show_row list" where
  "shows_35_years =
     map (\<lambda>y. (a_show y)\<lparr>show_row.release_year := Some y\<rparr>) (rev [1986..2020])
     @ [(a_show 1)\<lparr>show_row.release_year := Some 2020\<rparr>, a_show 2]"

text \<open>
  Twelve ratings, the first on 12 titles, the next on 11, and so on down to 1, and a title
  without rating.
\<close>

definition shows_12_ratings :: "show_row list" where
  "shows_12_ratings =
     concat (map (\<lambda>(r, n). replicate n ((a_show 0)\<lparr>show_row.rating := Some r\<rparr>))
       [(''TV-MA'', 12), (''TV-14'', 11), (''TV-PG'', 10), (''R'', 9), (''PG-13'', 8),
        (''TV-Y7'', 7), (''TV-Y'', 6), (''PG'', 5), (''TV-G'', 4), (''NR'', 3), (''G'', 2),
        (''NC-17'', 1)])
     @ [a_show 1]"

text \<open>
  Titles added in March (two), in December, in a month numbered 13 and with no month; and a
  table whose only title has no month.
\<close>

definition shows_some_months :: "show_row list" where
  "shows_some_months =
     [(a_show 1)\<lparr>show_row.month_added := Some 3\<rparr>, (a_show 2)\<lparr>show_row.month_added := Some 12\<rparr>,
      (a_show 3)\<lparr>show_row.month_added := Some 3\<rparr>, (a_show 4)\<lparr>show_row.month_added := Some 13\<rparr>,
      a_show 5]"

definition shows_no_month :: "show_row list" where
  "shows_no_month = [(a_show 1)\<lparr>show_row.type := Some ''Movie''\<rparr>]"

text \<open>
  Five titles by four directors, three of them named "Unknown" in different cases.
\<close>

definition df_shows_directed :: "df_shows_row dataframe" where
  "df_shows_directed = \<lparr>columns = df_shows_columns,
     rows = [(blank_row 1)\<lparr>df_shows_row.director_id := Some 1\<rparr>,
             (blank_row 2)\<lparr>df_shows_row.director_id := Some 2\<rparr>,
             (blank_row 3)\<lparr>df_shows_row.director_id := Some 3\<rparr>,
             (blank_row 4)\<lparr>df_shows_row.director_id := Some 4\<rparr>,
             (blank_row 5)\<lparr>df_shows_row.director_id := Some 4\<rparr>,
             blank_row 6]\<rparr>"

definition df_directors_unknown :: "director_row dataframe" where
  "df_directors_unknown = \<lparr>columns = [''director_id'', ''director_name''],
     rows = [\<lparr>director_row.director_id = Some 1, director_name = Some ''Unknown''\<rparr>,
             \<lparr>director_row.director_id = Some 2, director_name = Some ''unknown''\<rparr>,
             \<lparr>director_row.director_id = Some 3, director_name = Some ''UNKNOWN''\<rparr>,
             \<lparr>director_row.director_id = Some 4, director_name = Some ''Ana Lee''\<rparr>]\<rparr>"

text \<open>
  A bridge with a repeated row, a row for a second show, a row without dimension row and a
  row of a second name; the same shape for cast, countries and genres.
\<close>

definition df_show_cast_example :: "show_cast_member_row dataframe" where
  "df_show_cast_example = \<lparr>columns = [''show_id'', ''cast_member_id''],
     rows = [\<lparr>show_cast_member_row.show_id = 1, cast_member_id = Some 10\<rparr>, \<lparr>show_cast_member_row.show_id = 1, cast_member_id = Some 10\<rparr>,
             \<lparr>show_cast_member_row.show_id = 2, cast_member_id = Some 10\<rparr>, \<lparr>show_cast_member_row.show_id = 3, cast_member_id = Some 99\<rparr>,
             \<lparr>show_cast_member_row.show_id = 1, cast_member_id = Some 11\<rparr>]\<rparr>"

definition df_cast_members_example :: "cast_member_row dataframe" where
  "df_cast_members_example = \<lparr>columns = [''cast_member_id'', ''cast_member_name''],
     rows = [\<lparr>cast_member_row.cast_member_id = Some 10, cast_member_name = Some ''Ana''\<rparr>,
             \<lparr>cast_member_row.cast_member_id = Some 11, cast_member_name = Some ''Bo''\<rparr>]\<rparr>"

text \<open>One bridge row, and a dimension table that holds its cast member twice.\<close>

definition df_show_cast_one :: "show_cast_member_row dataframe" where
  "df_show_cast_one = \<lparr>columns = [''show_id'', ''cast_member_id''],
     rows = [\<lparr>show_cast_member_row.show_id = 1, cast_member_id = Some 10\<rparr>]\<rparr>"

definition df_cast_members_twice :: "cast_member_row dataframe" where
  "df_cast_members_twice = \<lparr>columns = [''cast_member_id'', ''cast_member_name''],
     rows = [\<lparr>cast_member_row.cast_member_id = Some 10, cast_member_name = Some ''Ana''\<rparr>,
             \<lparr>cast_member_row.cast_member_id = Some 10, cast_member_name = Some ''Ana''\<rparr>]\<rparr>"

definition df_show_countries_example :: "show_country_row dataframe" where
  "df_show_countries_example = \<lparr>columns = [''show_id'', ''country_id''],
     rows = [\<lparr>show_country_row.show_id = 1, country_id = Some 10\<rparr>, \<lparr>show_country_row.show_id = 1, country_id = Some 10\<rparr>,
             \<lparr>show_country_row.show_id = 2, country_id = Some 10\<rparr>, \<lparr>show_country_row.show_id = 3, country_id = Some 99\<rparr>,
             \<lparr>show_country_row.show_id = 1, country_id = Some 11\<rparr>]\<rparr>"

definition df_countries_example :: "country_row dataframe" where
  "df_countries_example = \<lparr>columns = [''country_id'', ''country_name''],
     rows = [\<lparr>country_row.country_id = Some 10, country_name = Some ''Peru''\<rparr>,
             \<lparr>country_row.country_id = Some 11, country_name = Some ''Chile''\<rparr>]\<rparr>"

definition df_show_genres_example :: "show_genre_row dataframe" where
  "df_show_genres_example = \<lparr>columns = [''show_id'', ''genre_id''],
     rows = [\<lparr>show_genre_row.show_id = 1, genre_id = Some 10\<rparr>, \<lparr>show_genre_row.show_id = 1, genre_id = Some 10\<rparr>,
             \<lparr>show_genre_row.show_id = 2, genre_id = Some 10\<rparr>, \<lparr>show_genre_row.show_id = 3, genre_id = Some 99\<rparr>,
             \<lparr>show_genre_row.show_id = 1, genre_id = Some 11\<rparr>]\<rparr>"

definition df_genres_example :: "genre_row dataframe" where
  "df_genres_example = \<lparr>columns = [''genre_id'', ''genre_name''],
     rows = [\<lparr>genre_row.genre_id = Some 10, genre_name = Some ''Drama''\<rparr>,
             \<lparr>genre_row.genre_id = Some 11, genre_name = Some ''Comedy''\<rparr>]\<rparr>"

text \<open>The fact table of the end-to-end scenario of the home view.\<close>

definition shows_scenario :: "show_row list" where
  "shows_scenario =
     [(a_show 1)\<lparr>show_row.type := Some ''Movie'', show_row.title := Some ''A'', show_row.year_added := Some 2020\<rparr>,
      (a_show 2)\<lparr>show_row.type := Some ''TV Show'', show_row.title := Some ''B'', show_row.year_added := Some 2020\<rparr>,
      (a_show 3)\<lparr>show_row.type := Some ''Movie'', show_row.title := Some ''C'', show_row.year_added := Some 2019\<rparr>]"

text \<open>A fact table whose only title was added in year 0.\<close>

definition shows_year_zero :: "show_row list" where
  "shows_year_zero =
     [(a_show 1)\<lparr>show_row.type := Some ''Movie'', show_row.title := Some ''A'', show_row.year_added := Some 0\<rparr>]"



text \<open>
  A database without titles whose bridge and dimension tables are filled; and a database
  with one title whose cast bridge cannot be read.
\<close>

definition db_no_shows :: database where
  "db_no_shows =
    \<lparr>shows_table = Returns [], directors = Returns [],
     cast_members = Returns (rows df_cast_members_example),
     countries = Returns (rows df_countries_example),
     genres = Returns (rows df_genres_example),
     show_cast_members = Returns (rows df_show_cast_example),
     show_countries = Returns (rows df_show_countries_example),
     show_genres = Returns (rows df_show_genres_example),
     group_rank = (\<lambda>year t. 0)\<rparr>"

definition db_no_cast :: database where
  "db_no_cast =
    \<lparr>shows_table = Returns [(a_show 1)\<lparr>show_row.type := Some ''Movie''\<rparr>],
     directors = Returns [],
     cast_members = Returns (rows df_cast_members_example),
     countries = Returns (rows df_countries_example),
     genres = Returns (rows df_genres_example),
     show_cast_members = Raises ''relation show_cast_members does not exist'',
     show_countries = Returns (rows df_show_countries_example),
     show_genres = Returns (rows df_show_genres_example),
     group_rank = (\<lambda>year t. 0)\<rparr>"


section \<open>Facts about the pandas operations\<close>

lemma set_dropna: "set (dropna xs) = {x. Some x \<in> set xs}"
  by (induction xs rule: dropna.induct) auto

lemma dropna_map_filter:
  "dropna (map f (filter (\<lambda>r. f r \<noteq> None) xs)) = dropna (map f xs)"
  by (induction xs) auto

lemma count_list_dropna_map:
  "count_list (dropna (map f xs)) v = length (filter (\<lambda>x. f x = Some v) xs)"
proof (induction xs)
  case Nil
  show ?case by simp
next
  case (Cons x xs)
  then show ?case by (cases "f x") auto
qed

lemma length_dropna_map:
  "length (dropna (map f xs)) = length (filter (\<lambda>x. f x \<noteq> None) xs)"
proof (induction xs)
  case Nil
  show ?case by simp
next
  case (Cons x xs)
  then show ?case by (cases "f x") auto
qed

lemma set_unique [simp]: "set (unique xs) = set xs"
  by (simp add: unique_def)

lemma distinct_unique [simp]: "distinct (unique xs)"
  by (simp add: unique_def)

lemma fst_group_count: "map fst (group_count xs) = unique xs"
  by (simp add: group_count_def comp_def)

lemma set_group_count:
  "(v, c) \<in> set (group_count xs) \<longleftrightarrow> v \<in> set xs \<and> c = count_list xs v"
  by (auto simp: group_count_def)

lemma sum_group_count: "sum_list (map snd (group_count xs)) = length xs"
proof -
  have "sum_list (map snd (group_count xs)) = sum_list (map (count_list xs) (unique xs))"
    by (simp add: group_count_def comp_def)
  also have "\<dots> = sum (count_list xs) (set (unique xs))"
    by (rule sum_list_distinct_conv_sum_set) simp
  also have "\<dots> = length xs"
    by (simp add: sum_count_set)
  finally show ?thesis .
qed

lemma set_sort_desc [simp]: "set (sort_desc s) = set s"
  by (simp add: sort_desc_def)

lemma length_sort_desc [simp]: "length (sort_desc s) = length s"
  by (simp add: sort_desc_def)

lemma sum_list_insort_key:
  fixes f :: "'a \<Rightarrow> nat"
  shows "sum_list (map f (insort_key k x xs)) = f x + sum_list (map f xs)"
  by (induction xs) auto

lemma sum_list_sort_key:
  fixes f :: "'a \<Rightarrow> nat"
  shows "sum_list (map f (sort_key k xs)) = sum_list (map f xs)"
  by (induction xs) (auto simp: sum_list_insort_key)

lemma distinct_map_insort_key:
  "distinct (map f (insort_key k x xs)) \<longleftrightarrow> f x \<notin> f ` set xs \<and> distinct (map f xs)"
  by (induction xs) (auto simp: set_insort_key)

lemma distinct_map_sort_key: "distinct (map f (sort_key k xs)) \<longleftrightarrow> distinct (map f xs)"
  by (induction xs) (auto simp: distinct_map_insort_key)

lemma sorted_sort_desc: "sorted_wrt (\<lambda>p q. snd q \<le> snd p) (sort_desc s)"
proof -
  have "sorted (map (\<lambda>p. - int (snd p)) (sort_desc s))"
    unfolding sort_desc_def by (rule sorted_sort_key)
  then show ?thesis
    by (simp add: sorted_wrt_map sorted_wrt_iff_nth_less) 
qed

lemma sort_key_id: "sorted (map k xs) \<Longrightarrow> sort_key k xs = xs"
  by (induction xs) (auto simp: insort_is_Cons)

lemma sort_desc_idem: "sort_desc (sort_desc s) = sort_desc s"
  unfolding sort_desc_def by (rule sort_key_id) (rule sorted_sort_key)

lemma set_value_counts:
  "(v, c) \<in> set (value_counts col) \<longleftrightarrow> Some v \<in> set col \<and> c = count_list (dropna col) v"
  by (simp add: value_counts_def set_group_count set_dropna)

lemma distinct_value_counts: "distinct (map fst (value_counts col))"
  by (simp add: value_counts_def sort_desc_def distinct_map_sort_key fst_group_count)

lemma sum_value_counts: "sum_list (map snd (value_counts col)) = length (dropna col)"
  by (simp add: value_counts_def sort_desc_def sum_list_sort_key sum_group_count)

lemma nlargest_value_counts: "nlargest n (value_counts col) = take n (value_counts col)"
  by (simp add: nlargest_def value_counts_def sort_desc_idem)

lemma fst_set_value_counts: "fst ` set (value_counts col) = set (dropna col)"
proof -
  have "fst ` set (value_counts col) = set (map fst (group_count (dropna col)))"
    by (simp add: value_counts_def)
  also have "\<dots> = set (dropna col)"
    by (simp only: fst_group_count set_unique)
  finally show ?thesis .
qed

lemma set_sort_index [simp]: "set (sort_index s) = set s"
  by (simp add: sort_index_def)

lemma length_sort_index [simp]: "length (sort_index s) = length s"
  by (simp add: sort_index_def)

lemma strict_sort_index_value_counts:
  "sorted_wrt (<) (map fst (sort_index (value_counts col)))"
  unfolding strict_sorted_iff sort_index_def
  by (simp add: distinct_map_sort_key distinct_value_counts sorted_sort_key)

lemma length_value_counts: "length (value_counts col) = card (set (dropna col))"
proof -
  have "length (value_counts col) = length (map fst (value_counts col))" by simp
  also have "\<dots> = card (set (map fst (value_counts col)))"
    by (rule distinct_card[symmetric]) (rule distinct_value_counts)
  also have "\<dots> = card (set (dropna col))"
    by (simp add: fst_set_value_counts)
  finally show ?thesis .
qed

lemma length_tail: "length (tail n xs) = min n (length xs)"
  by (auto simp: tail_def)

lemma set_tail_subset: "set (tail n xs) \<subseteq> set xs"
  by (simp add: tail_def set_drop_subset)

lemma tail_keeps_greatest:
  assumes "sorted_wrt (<) (map k xs)" "x \<in> set xs" "x \<notin> set (tail n xs)" "y \<in> set (tail n xs)"
  shows "k x < k y"
proof -
  let ?m = "length xs - n"
  have split: "xs = take ?m xs @ drop ?m xs" by simp
  from assms(2,3) have "x \<in> set (take ?m xs)"
    by (metis Un_iff append_take_drop_id set_append tail_def)
  moreover from assms(4) have "y \<in> set (drop ?m xs)" by (simp add: tail_def)
  moreover from assms(1) have "sorted_wrt (<) (map k (take ?m xs) @ map k (drop ?m xs))"
    by (metis append_take_drop_id map_append)
  ultimately show ?thesis by (auto simp: sorted_wrt_append)
qed

lemma sorted_wrt_tail: "sorted_wrt P (map k xs) \<Longrightarrow> sorted_wrt P (map k (tail n xs))"
  by (simp add: tail_def drop_map[symmetric] sorted_wrt_drop)

lemma df_dropna_simps [simp]:
  "rows (df_dropna col df) = filter (\<lambda>r. col r \<noteq> None) (rows df)"
  "columns (df_dropna col df) = columns df"
  by (simp_all add: df_dropna_def)

lemma dropna_df_dropna:
  "dropna (map col (rows (df_dropna col df))) = dropna (map col (rows df))"
  unfolding df_dropna_simps by (rule dropna_map_filter)

lemma count_list_pos: "x \<in> set xs \<Longrightarrow> 0 < count_list xs x"
  by (induction xs) auto


lemma sorted_value_counts: "sorted_wrt (\<lambda>p q. snd q \<le> snd p) (value_counts col)"
  unfolding value_counts_def by (rule sorted_sort_desc)

lemma take_keeps_first:
  assumes "sorted_wrt P xs" "x \<in> set (take n xs)" "y \<in> set xs" "y \<notin> set (take n xs)"
  shows "P x y"
proof -
  from assms(3,4) have "y \<in> set (drop n xs)"
    by (metis Un_iff append_take_drop_id set_append)
  moreover have "sorted_wrt P (take n xs @ drop n xs)"
    unfolding append_take_drop_id by (rule assms(1))
  ultimately show ?thesis using assms(2) unfolding sorted_wrt_append by blast
qed


lemma filter_key_distinct:
  "distinct (map k xs) \<Longrightarrow>
   filter (\<lambda>r. k r = a) xs = (case find (\<lambda>r. k r = a) xs of None \<Rightarrow> [] | Some x \<Rightarrow> [x])"
proof (induction xs)
  case Nil
  show ?case by simp
next
  case (Cons x xs)
  then have IH: "filter (\<lambda>r. k r = a) xs = (case find (\<lambda>r. k r = a) xs of None \<Rightarrow> [] | Some x \<Rightarrow> [x])"
    by simp
  show ?case
  proof (cases "k x = a")
    case True
    from Cons.prems have "k x \<notin> k ` set xs" by simp
    with True have "\<forall>y\<in>set xs. k y \<noteq> a" by blast
    then have "filter (\<lambda>r. k r = a) xs = []"
      by (simp add: filter_empty_conv)
    with True show ?thesis by simp
  next
    case False
    with IH show ?thesis by simp
  qed
qed

lemma merge_left_distinct:
  assumes "distinct (map rkey right)"
  shows "merge_left lkey rkey left right = map (\<lambda>l. (l, find (\<lambda>r. rkey r = lkey l) right)) left"
proof -
  have "(case filter (\<lambda>r. rkey r = a) right of [] \<Rightarrow> [(l, None)] | m # ms \<Rightarrow> map (\<lambda>r. (l, Some r)) (m # ms))
        = [(l, find (\<lambda>r. rkey r = a) right)]" for a and l :: 'c
    unfolding filter_key_distinct[OF assms] by (cases "find (\<lambda>r. rkey r = a) right") simp_all
  then show ?thesis
    unfolding merge_left_def by (induction left) simp_all
qed

lemma find_value_counts:
  "(case find (\<lambda>r. fst r = v) (value_counts col) of None \<Rightarrow> 0 | Some c \<Rightarrow> snd c)
     = count_list (dropna col) v"
proof (cases "find (\<lambda>r. fst r = v) (value_counts col)")
  case None
  have "v \<notin> set (dropna col)"
  proof
    assume "v \<in> set (dropna col)"
    then have "v \<in> fst ` set (value_counts col)" by (simp only: fst_set_value_counts)
    then obtain r where "r \<in> set (value_counts col)" "fst r = v" by blast
    with None show False by (cases r) (auto simp: find_None_iff)
  qed
  with None show ?thesis by (simp add: count_list_0_iff)
next
  case (Some c)
  then have "c \<in> set (value_counts col)" "fst c = v"
    by (auto simp: find_Some_iff)
  then have "(v, snd c) \<in> set (value_counts col)" by auto
  then have "snd c = count_list (dropna col) v" by (simp only: set_value_counts)
  with Some show ?thesis by simp
qed

lemma month_map_keys: "map_of month_map m = Some name \<longleftrightarrow> (m, name) \<in> set month_map"
  by (rule map_of_eq_Some_iff) (simp add: month_map_def)

lemma month_map_inj:
  "(i, name) \<in> set month_map \<Longrightarrow> (m, name) \<in> set month_map \<Longrightarrow> m = i"
  by (auto simp: month_map_def)

lemma month_order_sorted:
  "map month_order (map (\<lambda>p. (snd p, f p)) month_map) = [0 ..< 12]"
  unfolding month_order_def month_order_map_def month_map_def
  by (simp add: upt_rec)

lemma month_added_counts_eq:
  "month_added_counts df =
     map (\<lambda>p. (snd p, count_list (dropna (map month_added_name (rows df))) (snd p))) month_map"
proof -
  let ?col = "map month_added_name (rows df)"
  let ?f = "\<lambda>p :: int \<times> string. count_list (dropna ?col) (snd p)"
  have "map fillna0 (merge_left id fst all_months_df (value_counts ?col))
        = map (\<lambda>n. (n, count_list (dropna ?col) n)) all_months_df"
    by (simp add: merge_left_distinct[OF distinct_value_counts] fillna0_def find_value_counts)
  also have "\<dots> = map (\<lambda>p. (snd p, ?f p)) month_map"
    by (simp add: all_months_df_def)
  finally have merged: "map fillna0 (merge_left id fst all_months_df (value_counts ?col))
        = map (\<lambda>p. (snd p, ?f p)) month_map" .
  have "sorted (map month_order (map (\<lambda>p. (snd p, ?f p)) month_map))"
    unfolding month_order_sorted by simp
  then have "sort_key month_order (map (\<lambda>p. (snd p, ?f p)) month_map) = map (\<lambda>p. (snd p, ?f p)) month_map"
    by (rule sort_key_id)
  then show ?thesis
    by (simp add: month_added_counts_def Let_def merged)
qed

lemma set_nlargest_subset: "set (nlargest n s) \<subseteq> set s"
  unfolding nlargest_def by (metis set_sort_desc set_take_subset)

lemma nlargest_value_counts_mem:
  assumes "(v, c) \<in> set (nlargest n (value_counts col))"
  shows "Some v \<in> set col \<and> c = count_list (dropna col) v"
  using assms set_nlargest_subset[of n "value_counts col"] by (auto simp: set_value_counts)


lemma length_filter_key_distinct:
  assumes "distinct (map k xs)"
  shows "length (filter (\<lambda>r. k r = a \<and> P r) xs) = (if \<exists>r\<in>set xs. k r = a \<and> P r then 1 else 0)"
  using assms
proof (induction xs)
  case Nil
  show ?case by simp
next
  case (Cons x xs)
  then have IH: "length (filter (\<lambda>r. k r = a \<and> P r) xs) = (if \<exists>r\<in>set xs. k r = a \<and> P r then 1 else 0)"
    by simp
  from Cons.prems have new: "k x \<notin> k ` set xs" by simp
  show ?case
  proof (cases "k x = a")
    case True
    with new have "\<not> (\<exists>r\<in>set xs. k r = a \<and> P r)" by blast
    with IH True show ?thesis by simp
  next
    case False
    with IH show ?thesis by simp
  qed
qed

lemma length_filter_merge_inner:
  "length (filter (\<lambda>p. P (snd p)) (merge_inner lkey rkey left right))
     = sum_list (map (\<lambda>l. length (filter (\<lambda>r. rkey r = lkey l \<and> P r) right)) left)"
  unfolding merge_inner_def
  by (induction left) (simp_all add: filter_map comp_def conj_commute)

lemma pairs_named_join:
  "count_list (dropna (map (\<lambda>p. name (snd p)) (merge_inner lkey rkey left right)))
     = pairs_named lkey rkey name left right"
proof (rule ext)
  fix n
  have "count_list (dropna (map (\<lambda>p. name (snd p)) (merge_inner lkey rkey left right))) n
        = length (filter (\<lambda>p. name (snd p) = Some n) (merge_inner lkey rkey left right))"
    by (rule count_list_dropna_map)
  also have "\<dots> = pairs_named lkey rkey name left right n"
    unfolding pairs_named_def by (rule length_filter_merge_inner)
  finally show "count_list (dropna (map (\<lambda>p. name (snd p)) (merge_inner lkey rkey left right))) n
        = pairs_named lkey rkey name left right n" .
qed

lemma pairs_named_distinct:
  assumes "distinct (map rkey right)"
  shows "pairs_named lkey rkey name left right n = bridge_rows_named lkey rkey name left right n"
  unfolding pairs_named_def bridge_rows_named_def
  by (induction left) (simp_all add: length_filter_key_distinct[OF assms])

lemma top_counts_nlargest_value_counts:
  "top_counts k (count_list (dropna col)) (nlargest k (value_counts col))"
proof -
  let ?V = "value_counts col"
  let ?L = "take k ?V"
  let ?count = "count_list (dropna col)"
  have "(0 < ?count n) = (n \<in> set (dropna col))" for n
    using count_list_0_iff[of "dropna col" n] by (cases "?count n") simp_all
  then have pos: "{n. 0 < ?count n} = set (dropna col)"
    by blast
  have "length ?V = card (set (dropna col))" by (rule length_value_counts)
  then have 1: "length ?L = min k (card {n. 0 < ?count n})"
    unfolding pos length_take by (simp add: min.commute)
  have "distinct (map fst ?V)" by (rule distinct_value_counts)
  then have 2: "distinct (map fst ?L)"
    unfolding take_map[symmetric] by (rule distinct_take)
  have sortedV: "sorted_wrt (\<lambda>p q. snd q \<le> snd p) ?V" by (rule sorted_value_counts)
  then have 3: "sorted_wrt (\<lambda>p q. snd q \<le> snd p) ?L" by (rule sorted_wrt_take)
  have memV: "(n, c) \<in> set ?V \<longleftrightarrow> n \<in> set (dropna col) \<and> c = ?count n" for n c
    unfolding set_value_counts set_dropna by simp
  have 4: "0 < c \<and> c = ?count n" if "(n, c) \<in> set ?L" for n c
  proof -
    from that have "(n, c) \<in> set ?V" by (rule in_set_takeD)
    then have "n \<in> set (dropna col)" and c: "c = ?count n" by (simp_all add: memV)
    from this(1) have "0 < ?count n" by (rule count_list_pos)
    with c show ?thesis by simp
  qed
  have 5: "?count n \<le> c'" if out: "n \<notin> fst ` set ?L" and kept: "(n', c') \<in> set ?L" for n n' c'
  proof (cases "n \<in> set (dropna col)")
    case True
    then have inV: "(n, ?count n) \<in> set ?V" by (simp add: memV)
    from out have notL: "(n, ?count n) \<notin> set ?L" by force
    from take_keeps_first[OF sortedV kept inV notL] show ?thesis by simp
  next
    case False
    then have "?count n = 0" by (simp add: count_list_0_iff)
    then show ?thesis by simp
  qed
  from 1 2 3 4 5 show ?thesis
    unfolding top_counts_def nlargest_value_counts by blast
qed


section \<open>Facts about the loaded tables\<close>

lemma df_shows_of_Returns:
  "shows_table db = Returns ss \<Longrightarrow>
   df_shows_of db = \<lparr>columns = df_shows_columns, rows = map select_shows ss\<rparr>"
  by (simp add: df_shows_of_def run_query_def conn_shows_def select_from_def df_shows_columns_def)

lemma df_shows_of_Raises:
  "shows_table db = Raises e \<Longrightarrow> df_shows_of db = empty_dataframe"
  by (simp add: df_shows_of_def run_query_def conn_shows_def select_from_def)

lemma select_shows_simps [simp]:
  "df_shows_row.type (select_shows s) = show_row.type s"
  "df_shows_row.release_year (select_shows s) = show_row.release_year s"
  "df_shows_row.rating (select_shows s) = show_row.rating s"
  "df_shows_row.month_added (select_shows s) = show_row.month_added s"
  "df_shows_row.director_id (select_shows s) = show_row.director_id s"
  by (simp_all add: select_shows_def)


section \<open>Facts about the month names\<close>

lemma month_name_count:
  assumes "(i, name) \<in> set month_map"
  shows "count_list (dropna (map month_added_name (filter (\<lambda>r. df_shows_row.month_added r \<noteq> None) rs))) name
         = length (filter (\<lambda>r. df_shows_row.month_added r = Some i) rs)"
proof -
  have eq: "df_shows_row.month_added r \<noteq> None \<and> month_added_name r = Some name
            \<longleftrightarrow> df_shows_row.month_added r = Some i" for r
  proof (cases "df_shows_row.month_added r")
    case None
    then show ?thesis by simp
  next
    case (Some m)
    have "map_of month_map m = Some name \<longleftrightarrow> m = i"
      using assms month_map_inj[of i name m] by (auto simp: month_map_keys)
    with Some show ?thesis by (simp add: month_added_name_def)
  qed
  have "count_list (dropna (map month_added_name (filter (\<lambda>r. df_shows_row.month_added r \<noteq> None) rs))) name
        = length (filter (\<lambda>r. month_added_name r = Some name)
                    (filter (\<lambda>r. df_shows_row.month_added r \<noteq> None) rs))"
    by (rule count_list_dropna_map)
  also have "\<dots> = length (filter (\<lambda>r. df_shows_row.month_added r \<noteq> None \<and> month_added_name r = Some name) rs)"
    by (simp only: filter_filter conj_commute)
  also have "\<dots> = length (filter (\<lambda>r. df_shows_row.month_added r = Some i) rs)"
    by (simp only: eq)
  finally show ?thesis .
qed


section \<open>Facts about the grouped count of the home view\<close>

lemma distinct_group_count: "distinct (map fst (group_count xs))"
  by (simp add: fst_group_count)

lemma count_list_map_filter:
  "count_list (map f (filter P xs)) v = length (filter (\<lambda>x. P x \<and> f x = v) xs)"
  by (induction xs) auto

lemma run_query_year_added:
  assumes "shows_table db = Returns ss"
  shows "run_query (conn_year_added db) query_year_added [P_int y]
           = ([], \<lparr>columns = [''type'', ''count''],
                   rows = group_order db y (year_added_counts ss y)\<rparr>)"
  using assms by (simp add: run_query_def conn_year_added_def)

lemma set_group_order: "set (group_order db year groups) = set groups"
  by (simp add: group_order_def)

lemma group_order_Nil: "group_order db year groups = [] \<longleftrightarrow> groups = []"
proof -
  have "length (group_order db year groups) = length groups"
    by (simp add: group_order_def)
  then show ?thesis by (metis length_0_conv)
qed

lemma distinct_group_order:
  "distinct (map fst (group_order db year groups)) \<longleftrightarrow> distinct (map fst groups)"
  unfolding group_order_def by (rule distinct_map_sort_key)

lemma group_order_two:
  "group_order db year [a, b] = [a, b] \<or> group_order db year [a, b] = [b, a]"
  by (simp add: group_order_def)


section \<open>Facts about \<open>LIKE\<close> patterns\<close>














section \<open>Facts about the analytics page\<close>

lemma snd_run_query:
  "snd (run_query conn query params :: 'r element list \<times> 'd dataframe)
     = (case conn query params of Returns df \<Rightarrow> df | Raises e \<Rightarrow> empty_dataframe)"
  by (simp add: run_query_def split: outcome.split)

lemma loaded_tables:
  "snd (run_query (conn_shows db) query_shows [] :: 'r element list \<times> df_shows_row dataframe)
     = df_shows_of db"
  "snd (run_query (conn_directors db) query_directors [] :: 'r element list \<times> director_row dataframe)
     = df_directors_of db"
  "snd (run_query (conn_show_cast db) query_show_cast []
          :: 'r element list \<times> show_cast_member_row dataframe) = df_show_cast_of db"
  "snd (run_query (conn_cast_members db) query_cast_members []
          :: 'r element list \<times> cast_member_row dataframe) = df_cast_members_of db"
  "snd (run_query (conn_show_countries db) query_show_countries []
          :: 'r element list \<times> show_country_row dataframe) = df_show_countries_of db"
  "snd (run_query (conn_countries db) query_countries [] :: 'r element list \<times> country_row dataframe)
     = df_countries_of db"
  "snd (run_query (conn_show_genres db) query_show_genres []
          :: 'r element list \<times> show_genre_row dataframe) = df_show_genres_of db"
  "snd (run_query (conn_genres db) query_genres [] :: 'r element list \<times> genre_row dataframe)
     = df_genres_of db"
  unfolding df_shows_of_def df_directors_of_def df_show_cast_of_def df_cast_members_of_def
    df_show_countries_of_def df_countries_of_def df_show_genres_of_def df_genres_of_def
    snd_run_query by (rule refl)+

lemma analytics_view_eq:
  "analytics_view db =
     (analytics_banners db :: 'r element list) @
       (if \<not> df_empty (df_shows_of db) then
            [fig_type (df_shows_of db),
             fig_release_year (df_shows_of db),
             fig_rating (df_shows_of db),
             fig_month_added (df_shows_of db),
             fig_directors (df_shows_of db) (df_directors_of db),
             fig_cast (df_show_cast_of db) (df_cast_members_of db),
             fig_countries (df_show_countries_of db) (df_countries_of db),
             fig_genres (df_show_genres_of db) (df_genres_of db)]
          else [St_warning no_shows_warning])"
  unfolding analytics_view_def analytics_banners_def split_def Let_def loaded_tables
  by (simp only: append_assoc)

lemma df_shows_of_cases:
  "(columns (df_shows_of db) = df_shows_columns)
   \<or> (columns (df_shows_of db) = [] \<and> rows (df_shows_of db) = [])"
proof (cases "shows_table db")
  case (Returns ss)
  then show ?thesis by (simp add: df_shows_of_Returns)
next
  case (Raises e)
  then show ?thesis by (simp add: df_shows_of_Raises empty_dataframe_def)
qed

lemma fig_rating_warning:
  "is_warning (fig_rating (df_shows_of db) :: 'r element)
     \<longleftrightarrow> (\<forall>r\<in>set (rows (df_shows_of db)). df_shows_row.rating r = None)"
  using df_shows_of_cases[of db]
  by (auto simp: fig_rating_def Let_def df_empty_def df_shows_columns_def filter_empty_conv)

lemma chart_or_warning:
  "is_chart (fig_type d :: 'r element) \<or> is_warning (fig_type d :: 'r element)"
  "is_chart (fig_release_year d :: 'r element) \<or> is_warning (fig_release_year d :: 'r element)"
  "is_chart (fig_rating d :: 'r element) \<or> is_warning (fig_rating d :: 'r element)"
  "is_chart (fig_month_added d :: 'r element) \<or> is_warning (fig_month_added d :: 'r element)"
  "is_chart (fig_directors d dd :: 'r element) \<or> is_warning (fig_directors d dd :: 'r element)"
  "is_chart (fig_cast b1 d1 :: 'r element) \<or> is_warning (fig_cast b1 d1 :: 'r element)"
  "is_chart (fig_countries b2 d2 :: 'r element) \<or> is_warning (fig_countries b2 d2 :: 'r element)"
  "is_chart (fig_genres b3 d3 :: 'r element) \<or> is_warning (fig_genres b3 d3 :: 'r element)"
  by (simp_all add: fig_type_def fig_release_year_def fig_rating_def fig_month_added_def
        fig_directors_def fig_cast_def fig_countries_def fig_genres_def Let_def)


section \<open>Analytics view: type distribution\<close>

text \<open>
  C1 (as amended). The pie chart of the type distribution is drawn from \<open>type_counts\<close>,
  which has one category for each type that occurs, with the number of rows of that type.
  \<open>value_counts\<close> drops missing values, so the counts add up to the number of rows whose
  \<open>type\<close> is not null: a row with a null \<open>type\<close> is counted in no category.
\<close>

theorem type_counts_skip_null:
  "fig_type df_shows = St_plotly_chart (Pie (type_counts df_shows))
   \<and> distinct (map fst (type_counts df_shows))
   \<and> (\<forall>t c. (t, c) \<in> set (type_counts df_shows) \<longleftrightarrow>
          0 < c \<and> c = length (filter (\<lambda>r. df_shows_row.type r = Some t) (rows df_shows)))
   \<and> sum_list (map snd (type_counts df_shows))
       = length (filter (\<lambda>r. df_shows_row.type r \<noteq> None) (rows df_shows))"
proof -
  let ?col = "map df_shows_row.type (rows df_shows)"
  have cnt: "count_list (dropna ?col) t = length (filter (\<lambda>r. df_shows_row.type r = Some t) (rows df_shows))" for t
    by (rule count_list_dropna_map)
  have mem: "Some t \<in> set ?col \<longleftrightarrow> 0 < length (filter (\<lambda>r. df_shows_row.type r = Some t) (rows df_shows))" for t
    by (force simp: filter_empty_conv)
  have "(t, c) \<in> set (type_counts df_shows) \<longleftrightarrow>
          0 < c \<and> c = length (filter (\<lambda>r. df_shows_row.type r = Some t) (rows df_shows))" for t c
    unfolding type_counts_def set_value_counts cnt mem by auto
  moreover have "sum_list (map snd (type_counts df_shows))
       = length (filter (\<lambda>r. df_shows_row.type r \<noteq> None) (rows df_shows))"
    unfolding type_counts_def sum_value_counts by (rule length_dropna_map)
  moreover have "distinct (map fst (type_counts df_shows))"
    unfolding type_counts_def by (rule distinct_value_counts)
  ultimately show ?thesis by (simp add: fig_type_def)
qed

theorem type_counts_skip_null_witness:
  "type_counts df_two_types = [(''Movie'', 2), (''TV Show'', 1)]
   \<and> sum_list (map snd (type_counts df_two_types)) = 3
   \<and> length (rows df_two_types) = 4"
proof -
  have ev: "type_counts df_two_types = [(''Movie'', 2), (''TV Show'', 1)]"
    by code_simp
  have "sum_list (map snd (type_counts df_two_types))
          = length (filter (\<lambda>r. df_shows_row.type r \<noteq> None) (rows df_two_types))"
    using type_counts_skip_null [of df_two_types] by blast
  then have "sum_list (map snd (type_counts df_two_types)) = 3"
    by (simp add: df_two_types_def blank_row_def)
  with ev show ?thesis by (simp add: df_two_types_def)
qed

text \<open>
  The claim as stated (every row, also one with a null \<open>type\<close>, is counted in some
  category) fails on a table of a movie and a title without type: the chart has the one
  category \<open>Movie\<close> with count 1, for 2 rows.
\<close>

theorem type_counts_null_row_counterexample:
  "fig_type df_null_type = (St_plotly_chart (Pie [(''Movie'', 1)]) :: unit element)
   \<and> sum_list (map snd (type_counts df_null_type)) = 1
   \<and> length (rows df_null_type) = 2"
proof -
  have ev: "type_counts df_null_type = [(''Movie'', 1)]"
    by code_simp
  then show ?thesis by (simp add: fig_type_def df_null_type_def)
qed

section \<open>Analytics view: the eight aggregations\<close>

text \<open>
  C2 (as amended). For every database: when the result of the \<open>shows\<close> query is not
  empty, the page is the error banners of the loads followed by the eight figures, each
  computed from its own tables only, and each a chart or a warning in its place, so that
  no failure or emptiness behind one of them keeps another from being shown; the rating
  figure is a warning exactly when no row has a rating, and the cast, country and genre
  figures are warnings exactly when their bridge or dimension table is empty or could not
  be read. When the result of the \<open>shows\<close> query is empty (no rows, or the query
  failed), the page has one warning in place of all eight figures.
\<close>

theorem analytics_view_independent:
  "(\<not> df_empty (df_shows_of db) \<longrightarrow>
      analytics_view db
        = (analytics_banners db :: 'a element list) @
             [fig_type (df_shows_of db),
              fig_release_year (df_shows_of db),
              fig_rating (df_shows_of db),
              fig_month_added (df_shows_of db),
              fig_directors (df_shows_of db) (df_directors_of db),
              fig_cast (df_show_cast_of db) (df_cast_members_of db),
              fig_countries (df_show_countries_of db) (df_countries_of db),
              fig_genres (df_show_genres_of db) (df_genres_of db)])
   \<and> (df_empty (df_shows_of db) \<longrightarrow>
      analytics_view db = (analytics_banners db :: 'a element list) @ [St_warning no_shows_warning])
   \<and> list_all (\<lambda>e. is_chart e \<or> is_warning e)
        ([fig_type (df_shows_of db),
              fig_release_year (df_shows_of db),
              fig_rating (df_shows_of db),
              fig_month_added (df_shows_of db),
              fig_directors (df_shows_of db) (df_directors_of db),
              fig_cast (df_show_cast_of db) (df_cast_members_of db),
              fig_countries (df_show_countries_of db) (df_countries_of db),
              fig_genres (df_show_genres_of db) (df_genres_of db)] :: 'a element list)
   \<and> (is_warning (fig_rating (df_shows_of db) :: 'a element)
        \<longleftrightarrow> (\<forall>r\<in>set (rows (df_shows_of db)). df_shows_row.rating r = None))
   \<and> (is_warning (fig_cast (df_show_cast_of db) (df_cast_members_of db) :: 'a element)
        \<longleftrightarrow> df_empty (df_show_cast_of db) \<or> df_empty (df_cast_members_of db))
   \<and> (is_warning (fig_countries (df_show_countries_of db) (df_countries_of db) :: 'a element)
        \<longleftrightarrow> df_empty (df_show_countries_of db) \<or> df_empty (df_countries_of db))
   \<and> (is_warning (fig_genres (df_show_genres_of db) (df_genres_of db) :: 'a element)
        \<longleftrightarrow> df_empty (df_show_genres_of db) \<or> df_empty (df_genres_of db))"
proof -
  note page = analytics_view_eq[of db, where ?'r = 'a]
  have 1: "\<not> df_empty (df_shows_of db) \<longrightarrow>
      analytics_view db
        = (analytics_banners db :: 'a element list) @
             [fig_type (df_shows_of db),
              fig_release_year (df_shows_of db),
              fig_rating (df_shows_of db),
              fig_month_added (df_shows_of db),
              fig_directors (df_shows_of db) (df_directors_of db),
              fig_cast (df_show_cast_of db) (df_cast_members_of db),
              fig_countries (df_show_countries_of db) (df_countries_of db),
              fig_genres (df_show_genres_of db) (df_genres_of db)]"
    unfolding page by simp
  have 2: "df_empty (df_shows_of db) \<longrightarrow>
      analytics_view db = (analytics_banners db :: 'a element list) @ [St_warning no_shows_warning]"
    unfolding page by simp
  have 3: "list_all (\<lambda>e. is_chart e \<or> is_warning e)
        ([fig_type (df_shows_of db),
              fig_release_year (df_shows_of db),
              fig_rating (df_shows_of db),
              fig_month_added (df_shows_of db),
              fig_directors (df_shows_of db) (df_directors_of db),
              fig_cast (df_show_cast_of db) (df_cast_members_of db),
              fig_countries (df_show_countries_of db) (df_countries_of db),
              fig_genres (df_show_genres_of db) (df_genres_of db)] :: 'a element list)"
    by (simp only: list.pred_inject chart_or_warning simp_thms)
  have 4: "is_warning (fig_rating (df_shows_of db) :: 'a element)
        \<longleftrightarrow> (\<forall>r\<in>set (rows (df_shows_of db)). df_shows_row.rating r = None)"
    by (rule fig_rating_warning)
  have 5: "is_warning (fig_cast (df_show_cast_of db) (df_cast_members_of db) :: 'a element)
        \<longleftrightarrow> df_empty (df_show_cast_of db) \<or> df_empty (df_cast_members_of db)"
    by (simp add: fig_cast_def)
  have 6: "is_warning (fig_countries (df_show_countries_of db) (df_countries_of db) :: 'a element)
        \<longleftrightarrow> df_empty (df_show_countries_of db) \<or> df_empty (df_countries_of db)"
    by (simp add: fig_countries_def)
  have 7: "is_warning (fig_genres (df_show_genres_of db) (df_genres_of db) :: 'a element)
        \<longleftrightarrow> df_empty (df_show_genres_of db) \<or> df_empty (df_genres_of db)"
    by (simp add: fig_genres_def)
  show ?thesis
    by (intro conjI) (rule 1 2 3 4 5 6 7)+
qed

lemma analytics_no_cast_page:
  "(analytics_banners db_no_cast :: unit element list) @
             [fig_type (df_shows_of db_no_cast),
              fig_release_year (df_shows_of db_no_cast),
              fig_rating (df_shows_of db_no_cast),
              fig_month_added (df_shows_of db_no_cast),
              fig_directors (df_shows_of db_no_cast) (df_directors_of db_no_cast),
              fig_cast (df_show_cast_of db_no_cast) (df_cast_members_of db_no_cast),
              fig_countries (df_show_countries_of db_no_cast) (df_countries_of db_no_cast),
              fig_genres (df_show_genres_of db_no_cast) (df_genres_of db_no_cast)]
     = [St_error ''Error al ejecutar la consulta: SELECT show_id, cast_member_id FROM show_cast_members;'',
        St_error ''Detalles del error: relation show_cast_members does not exist'',
        St_plotly_chart (Pie [(''Movie'', 1)]),
        St_warning (''No hay datos de 'release_year' para mostrar el gr'' @ [CHR 0xE1] @ ''fico.''),
        St_warning (''No hay datos de 'rating' para mostrar el gr'' @ [CHR 0xE1] @ ''fico.''),
        St_warning (''No hay datos de 'month_added' para mostrar el gr'' @ [CHR 0xE1] @ ''fico.''),
        St_warning ''No se pudieron cargar datos de directores o shows.'',
        St_warning ''No se pudieron cargar datos del elenco.'',
        St_plotly_chart (Bar [(''Peru'', 3), (''Chile'', 1)]),
        St_plotly_chart (Bar [(''Drama'', 3), (''Comedy'', 1)])]"
  by code_simp

lemma analytics_no_cast_loaded:
  "\<not> df_empty (df_shows_of db_no_cast)"
  "df_empty (df_show_cast_of db_no_cast)"
  by code_simp+

theorem analytics_view_independent_witness:
  "\<not> df_empty (df_shows_of db_no_cast)
   \<and> df_empty (df_show_cast_of db_no_cast)
   \<and> is_warning (fig_cast (df_show_cast_of db_no_cast) (df_cast_members_of db_no_cast) :: unit element)
   \<and> analytics_view db_no_cast
     = [St_error ''Error al ejecutar la consulta: SELECT show_id, cast_member_id FROM show_cast_members;'',
        St_error ''Detalles del error: relation show_cast_members does not exist'',
        St_plotly_chart (Pie [(''Movie'', 1)]),
        St_warning (''No hay datos de 'release_year' para mostrar el gr'' @ [CHR 0xE1] @ ''fico.''),
        St_warning (''No hay datos de 'rating' para mostrar el gr'' @ [CHR 0xE1] @ ''fico.''),
        St_warning (''No hay datos de 'month_added' para mostrar el gr'' @ [CHR 0xE1] @ ''fico.''),
        St_warning ''No se pudieron cargar datos de directores o shows.'',
        St_warning ''No se pudieron cargar datos del elenco.'',
        St_plotly_chart (Bar [(''Peru'', 3), (''Chile'', 1)]),
        St_plotly_chart (Bar [(''Drama'', 3), (''Comedy'', 1)]) :: unit element]"
proof -
  note inst = analytics_view_independent [of db_no_cast, where ?'a = unit]
  note loaded = analytics_no_cast_loaded
  have "analytics_view db_no_cast
        = (analytics_banners db_no_cast :: unit element list) @
             [fig_type (df_shows_of db_no_cast),
              fig_release_year (df_shows_of db_no_cast),
              fig_rating (df_shows_of db_no_cast),
              fig_month_added (df_shows_of db_no_cast),
              fig_directors (df_shows_of db_no_cast) (df_directors_of db_no_cast),
              fig_cast (df_show_cast_of db_no_cast) (df_cast_members_of db_no_cast),
              fig_countries (df_show_countries_of db_no_cast) (df_countries_of db_no_cast),
              fig_genres (df_show_genres_of db_no_cast) (df_genres_of db_no_cast)]"
    by (rule inst [THEN conjunct1, THEN mp, OF loaded(1)])
  then have page: "analytics_view db_no_cast
     = [St_error ''Error al ejecutar la consulta: SELECT show_id, cast_member_id FROM show_cast_members;'',
        St_error ''Detalles del error: relation show_cast_members does not exist'',
        St_plotly_chart (Pie [(''Movie'', 1)]),
        St_warning (''No hay datos de 'release_year' para mostrar el gr'' @ [CHR 0xE1] @ ''fico.''),
        St_warning (''No hay datos de 'rating' para mostrar el gr'' @ [CHR 0xE1] @ ''fico.''),
        St_warning (''No hay datos de 'month_added' para mostrar el gr'' @ [CHR 0xE1] @ ''fico.''),
        St_warning ''No se pudieron cargar datos de directores o shows.'',
        St_warning ''No se pudieron cargar datos del elenco.'',
        St_plotly_chart (Bar [(''Peru'', 3), (''Chile'', 1)]),
        St_plotly_chart (Bar [(''Drama'', 3), (''Comedy'', 1)]) :: unit element]"
    by (simp only: analytics_no_cast_page)
  have "df_empty (df_show_cast_of db_no_cast) \<or> df_empty (df_cast_members_of db_no_cast)"
    using loaded(2) by (rule disjI1)
  then have warn: "is_warning (fig_cast (df_show_cast_of db_no_cast) (df_cast_members_of db_no_cast)
                               :: unit element)"
    by (rule inst [THEN conjunct2, THEN conjunct2, THEN conjunct2, THEN conjunct2,
                   THEN conjunct1, THEN iffD2])
  from loaded(1) loaded(2) warn page show ?thesis by (intro conjI) assumption+
qed

text \<open>
  The claim as stated (an empty \<open>shows\<close> result does not keep the cast, country and genre
  aggregations from being shown) fails on a database without titles whose bridge and
  dimension tables are filled: the page is the one warning, and none of the three charts
  that these tables give is on it.
\<close>

theorem analytics_no_shows_counterexample:
  "analytics_view db_no_shows = [St_warning no_shows_warning :: unit element]
   \<and> fig_cast (df_show_cast_of db_no_shows) (df_cast_members_of db_no_shows)
       = (St_plotly_chart (Bar [(''Ana'', 3), (''Bo'', 1)]) :: unit element)
   \<and> fig_countries (df_show_countries_of db_no_shows) (df_countries_of db_no_shows)
       = (St_plotly_chart (Bar [(''Peru'', 3), (''Chile'', 1)]) :: unit element)
   \<and> fig_genres (df_show_genres_of db_no_shows) (df_genres_of db_no_shows)
       = (St_plotly_chart (Bar [(''Drama'', 3), (''Comedy'', 1)]) :: unit element)"
  by code_simp

section \<open>Analytics view: additions by month\<close>

text \<open>
  C3 (as amended). For every \<open>shows\<close> table with at least one non-null \<open>month_added\<close>,
  the month chart has exactly 12 categories, the fixed three-letter names in calendar order
  \<open>Ene .. Dic\<close> whatever the counts are, each with the number of rows added in that month;
  a month absent from the data has count 0. For every \<open>shows\<close> table in which no row has a
  non-null \<open>month_added\<close> (the table without rows too), the view shows a warning in place of
  the chart.
\<close>

theorem month_added_counts_12_months:
  assumes tab: "shows_table db = Returns ss"
  shows "((\<exists>s\<in>set ss. show_row.month_added s \<noteq> None) \<longrightarrow>
          fig_month_added (df_shows_of db)
           = St_plotly_chart (Bar (map (\<lambda>p. (snd p,
                 length (filter (\<lambda>s. show_row.month_added s = Some (fst p)) ss))) month_map)))
    \<and> ((\<forall>s\<in>set ss. show_row.month_added s = None) \<longrightarrow>
          fig_month_added (df_shows_of db)
           = St_warning (''No hay datos de 'month_added' para mostrar el gr'' @ [CHR 0xE1] @ ''fico.''))
    \<and> map fst (map (\<lambda>p. (snd p,
                 length (filter (\<lambda>s. show_row.month_added s = Some (fst p)) ss))) month_map)
        = [''Ene'', ''Feb'', ''Mar'', ''Abr'', ''May'', ''Jun'',
           ''Jul'', ''Ago'', ''Sep'', ''Oct'', ''Nov'', ''Dic'']
    \<and> length (map (\<lambda>p. (snd p,
                 length (filter (\<lambda>s. show_row.month_added s = Some (fst p)) ss))) month_map) = 12"
proof -
  let ?df = "df_dropna df_shows_row.month_added (df_shows_of db)"
  have rows_df: "rows (df_shows_of db) = map select_shows ss"
    and cols_df: "columns (df_shows_of db) = df_shows_columns"
    using tab by (simp_all add: df_shows_of_Returns)
  have len: "length (filter (\<lambda>r. df_shows_row.month_added r = Some i) (map select_shows ss))
             = length (filter (\<lambda>s. show_row.month_added s = Some i) ss)" for i
    by (simp add: filter_map comp_def)
  have counts: "month_added_counts ?df
        = map (\<lambda>p. (snd p, length (filter (\<lambda>s. show_row.month_added s = Some (fst p)) ss))) month_map"
  proof -
    have "count_list (dropna (map month_added_name (rows ?df))) (snd p)
          = length (filter (\<lambda>s. show_row.month_added s = Some (fst p)) ss)"
      if "p \<in> set month_map" for p
    proof -
      from that have "(fst p, snd p) \<in> set month_map" by simp
      from month_name_count[OF this, of "map select_shows ss"] show ?thesis
        by (simp only: df_dropna_simps rows_df len)
    qed
    then show ?thesis
      unfolding month_added_counts_eq by (intro map_cong refl) simp
  qed
  have 1: "fig_month_added (df_shows_of db)
           = St_plotly_chart (Bar (map (\<lambda>p. (snd p,
                 length (filter (\<lambda>s. show_row.month_added s = Some (fst p)) ss))) month_map))"
    if ex: "\<exists>s\<in>set ss. show_row.month_added s \<noteq> None"
  proof -
    have nonempty: "\<not> df_empty ?df"
      using ex by (auto simp: df_empty_def cols_df rows_df df_shows_columns_def filter_empty_conv)
    have "fig_month_added (df_shows_of db) = St_plotly_chart (Bar (month_added_counts ?df))"
      using nonempty by (simp add: fig_month_added_def Let_def cols_df df_shows_columns_def)
    with counts show ?thesis by simp
  qed
  have 2: "fig_month_added (df_shows_of db)
           = St_warning (''No hay datos de 'month_added' para mostrar el gr'' @ [CHR 0xE1] @ ''fico.'')"
    if no: "\<forall>s\<in>set ss. show_row.month_added s = None"
  proof -
    have "rows ?df = []"
      using no by (simp add: rows_df filter_empty_conv)
    then have "df_empty ?df" by (simp add: df_empty_def)
    then show ?thesis
      by (simp add: fig_month_added_def Let_def cols_df df_shows_columns_def)
  qed
  have 3: "map fst (map (\<lambda>p. (snd p,
                 length (filter (\<lambda>s. show_row.month_added s = Some (fst p)) ss))) month_map)
        = [''Ene'', ''Feb'', ''Mar'', ''Abr'', ''May'', ''Jun'',
           ''Jul'', ''Ago'', ''Sep'', ''Oct'', ''Nov'', ''Dic'']"
    by (simp add: month_map_def)
  have 4: "length (map (\<lambda>p. (snd p,
                 length (filter (\<lambda>s. show_row.month_added s = Some (fst p)) ss))) month_map) = 12"
    by (simp add: month_map_def)
  from 1 2 3 4 show ?thesis by (intro conjI impI) assumption+
qed

theorem month_added_counts_12_months_witness:
  "shows_table (db_of_shows shows_some_months) = Returns shows_some_months
   \<and> fig_month_added (df_shows_of (db_of_shows shows_some_months))
       = (St_plotly_chart (Bar [(''Ene'', 0), (''Feb'', 0), (''Mar'', 2), (''Abr'', 0), (''May'', 0),
            (''Jun'', 0), (''Jul'', 0), (''Ago'', 0), (''Sep'', 0), (''Oct'', 0), (''Nov'', 0),
            (''Dic'', 1)]) :: unit element)
   \<and> shows_table (db_of_shows [a_show 1, a_show 2]) = Returns [a_show 1, a_show 2]
   \<and> fig_month_added (df_shows_of (db_of_shows [a_show 1, a_show 2]))
       = (St_warning (''No hay datos de 'month_added' para mostrar el gr'' @ [CHR 0xE1] @ ''fico.'')
          :: unit element)"
proof -
  have tab: "shows_table (db_of_shows shows_some_months) = Returns shows_some_months"
    by (simp add: db_of_shows_def)
  have "a_show 1\<lparr>show_row.month_added := Some 3\<rparr> \<in> set shows_some_months"
    by (simp add: shows_some_months_def)
  then have ex: "\<exists>s\<in>set shows_some_months. show_row.month_added s \<noteq> None"
    by (rule bexI[rotated]) simp
  note inst = month_added_counts_12_months [OF tab, where ?'a = unit]
  from inst ex
  have "fig_month_added (df_shows_of (db_of_shows shows_some_months))
       = (St_plotly_chart (Bar (map (\<lambda>p. (snd p,
             length (filter (\<lambda>s. show_row.month_added s = Some (fst p)) shows_some_months)))
           month_map)) :: unit element)"
    by blast
  then have chart: "fig_month_added (df_shows_of (db_of_shows shows_some_months))
       = (St_plotly_chart (Bar [(''Ene'', 0), (''Feb'', 0), (''Mar'', 2), (''Abr'', 0), (''May'', 0),
            (''Jun'', 0), (''Jul'', 0), (''Ago'', 0), (''Sep'', 0), (''Oct'', 0), (''Nov'', 0),
            (''Dic'', 1)]) :: unit element)"
    by (simp add: month_map_def shows_some_months_def a_show_def)
  have tab2: "shows_table (db_of_shows [a_show 1, a_show 2]) = Returns [a_show 1, a_show 2]"
    by (simp add: db_of_shows_def)
  have no: "\<forall>s\<in>set [a_show 1, a_show 2]. show_row.month_added s = None"
    by (simp add: a_show_def)
  note inst2 = month_added_counts_12_months [OF tab2, where ?'a = unit]
  from inst2 no
  have warn: "fig_month_added (df_shows_of (db_of_shows [a_show 1, a_show 2]))
       = (St_warning (''No hay datos de 'month_added' para mostrar el gr'' @ [CHR 0xE1] @ ''fico.'')
          :: unit element)"
    by blast
  from tab chart tab2 warn show ?thesis by (intro conjI) assumption+
qed

text \<open>
  The claim as stated (for every \<open>shows\<close> table) fails on a table whose rows all have a
  null \<open>month_added\<close>: the view shows the warning of its \<open>else\<close> branch, and no chart.
\<close>

theorem month_added_no_month_counterexample:
  "fig_month_added (df_shows_of (db_of_shows shows_no_month))
     = (St_warning (''No hay datos de 'month_added' para mostrar el gr'' @ [CHR 0xE1] @ ''fico.'')
        :: unit element)"
  by code_simp

section \<open>Analytics view: releases by year\<close>

text \<open>
  C4. For every \<open>shows\<close> table with at least one non-null \<open>release_year\<close>, the chart of
  releases by year is drawn from \<open>latest_years_count\<close> of the rows with a release year:
  its years are strictly ascending; there are min(30, number of distinct years) of them;
  each comes with the number of rows of that year; and every year of the data that is not
  retained is earlier than every retained year. With 35 distinct years, 30 are retained.
\<close>

theorem latest_years_count_last_30:
  assumes tab: "shows_table db = Returns ss"
    and ex: "\<exists>s\<in>set ss. show_row.release_year s \<noteq> None"
  shows "fig_release_year (df_shows_of db)
           = St_plotly_chart (Bar_year (latest_years_count (df_dropna df_shows_row.release_year (df_shows_of db))))
    \<and> sorted_wrt (<) (map fst (latest_years_count (df_dropna df_shows_row.release_year (df_shows_of db))))
    \<and> length (latest_years_count (df_dropna df_shows_row.release_year (df_shows_of db)))
        = min 30 (card {y. \<exists>s\<in>set ss. show_row.release_year s = Some y})
    \<and> (\<forall>y c. (y, c) \<in> set (latest_years_count (df_dropna df_shows_row.release_year (df_shows_of db)))
          \<longrightarrow> 0 < c \<and> c = length (filter (\<lambda>s. show_row.release_year s = Some y) ss))
    \<and> (\<forall>y y' c'. (\<exists>s\<in>set ss. show_row.release_year s = Some y)
          \<and> y \<notin> fst ` set (latest_years_count (df_dropna df_shows_row.release_year (df_shows_of db)))
          \<and> (y', c') \<in> set (latest_years_count (df_dropna df_shows_row.release_year (df_shows_of db)))
          \<longrightarrow> y < y')"
proof -
  let ?df = "df_dropna df_shows_row.release_year (df_shows_of db)"
  let ?A = "release_year_counts ?df"
  let ?L = "latest_years_count ?df"
  define vals where "vals = dropna (map df_shows_row.release_year (rows ?df))"
  have rows_df: "rows (df_shows_of db) = map select_shows ss"
    and cols_df: "columns (df_shows_of db) = df_shows_columns"
    using tab by (simp_all add: df_shows_of_Returns)
  have "vals = dropna (map df_shows_row.release_year (map select_shows ss))"
    unfolding vals_def dropna_df_dropna rows_df ..
  then have vals: "vals = dropna (map show_row.release_year ss)"
    by (simp add: comp_def)
  have setY: "set vals = {y. \<exists>s\<in>set ss. show_row.release_year s = Some y}"
    unfolding vals set_dropna by force
  have cnt: "count_list vals y = length (filter (\<lambda>s. show_row.release_year s = Some y) ss)" for y
    unfolding vals by (rule count_list_dropna_map)
  have A_def: "?A = sort_index (value_counts (map df_shows_row.release_year (rows ?df)))"
    by (simp add: release_year_counts_def)
  have L_def: "?L = tail 30 ?A" by (simp add: latest_years_count_def)
  have strictA: "sorted_wrt (<) (map fst ?A)"
    unfolding A_def by (rule strict_sort_index_value_counts)
  have memA: "(y, c) \<in> set ?A \<longleftrightarrow> y \<in> set vals \<and> c = count_list vals y" for y c
    unfolding A_def vals_def set_sort_index set_value_counts set_dropna by simp
  have nonempty: "\<not> df_empty ?df"
    using ex by (auto simp: df_empty_def cols_df rows_df df_shows_columns_def filter_empty_conv)
  have 1: "fig_release_year (df_shows_of db) = St_plotly_chart (Bar_year ?L)"
    using nonempty by (simp add: fig_release_year_def Let_def)
  have 2: "sorted_wrt (<) (map fst ?L)"
    unfolding L_def using strictA by (rule sorted_wrt_tail)
  have lenA: "length ?A = card (set vals)"
    unfolding A_def length_sort_index vals_def by (rule length_value_counts)
  have 3: "length ?L = min 30 (card {y. \<exists>s\<in>set ss. show_row.release_year s = Some y})"
    unfolding L_def length_tail lenA setY ..
  have 4: "0 < c \<and> c = length (filter (\<lambda>s. show_row.release_year s = Some y) ss)"
    if "(y, c) \<in> set ?L" for y c
  proof -
    from that have "(y, c) \<in> set ?A" unfolding L_def using set_tail_subset by fastforce
    then have "y \<in> set vals" "c = count_list vals y" by (simp_all only: memA)
    moreover from this(1) have "0 < count_list vals y" by (rule count_list_pos)
    ultimately show ?thesis by (simp only: cnt)
  qed
  have 5: "y < y'"
    if "\<exists>s\<in>set ss. show_row.release_year s = Some y" "y \<notin> fst ` set ?L" "(y', c') \<in> set ?L" for y y' c'
  proof -
    from that(1) have "y \<in> set vals" unfolding setY by simp
    then have inA: "(y, count_list vals y) \<in> set ?A" unfolding memA by simp
    from that(2) have notL: "(y, count_list vals y) \<notin> set (tail 30 ?A)"
      unfolding L_def by force
    from that(3) have "(y', c') \<in> set (tail 30 ?A)" unfolding L_def .
    from tail_keeps_greatest[OF strictA inA notL this] show ?thesis by simp
  qed
  from 1 2 3 4 5 show ?thesis by blast
qed

lemma latest_years_count_35_years:
  "latest_years_count (df_dropna df_shows_row.release_year (df_shows_of (db_of_shows shows_35_years)))
     = map (\<lambda>y. (y, 1)) [1991..2019] @ [(2020, 2)]"
  by code_simp

lemma length_latest_years_count_35_years:
  "length (latest_years_count
             (df_dropna df_shows_row.release_year (df_shows_of (db_of_shows shows_35_years)))) = 30"
  by code_simp

theorem latest_years_count_last_30_witness:
  "shows_table (db_of_shows shows_35_years) = Returns shows_35_years
   \<and> fig_release_year (df_shows_of (db_of_shows shows_35_years))
       = (St_plotly_chart (Bar_year (map (\<lambda>y. (y, 1)) [1991..2019] @ [(2020, 2)])) :: unit element)
   \<and> length (latest_years_count
               (df_dropna df_shows_row.release_year (df_shows_of (db_of_shows shows_35_years)))) = 30"
proof -
  have tab: "shows_table (db_of_shows shows_35_years) = Returns shows_35_years"
    by (simp add: db_of_shows_def)
  have "a_show 1\<lparr>show_row.release_year := Some 2020\<rparr> \<in> set shows_35_years"
    by (simp add: shows_35_years_def)
  then have ex: "\<exists>s\<in>set shows_35_years. show_row.release_year s \<noteq> None"
    by (rule bexI[rotated]) simp
  from latest_years_count_last_30 [OF tab ex, where ?'a = unit]
  have "fig_release_year (df_shows_of (db_of_shows shows_35_years))
       = (St_plotly_chart (Bar_year (latest_years_count
            (df_dropna df_shows_row.release_year (df_shows_of (db_of_shows shows_35_years)))))
          :: unit element)"
    by (rule conjunct1)
  then have "fig_release_year (df_shows_of (db_of_shows shows_35_years))
       = (St_plotly_chart (Bar_year (map (\<lambda>y. (y, 1)) [1991..2019] @ [(2020, 2)])) :: unit element)"
    by (simp only: latest_years_count_35_years)
  with tab length_latest_years_count_35_years show ?thesis by blast
qed

section \<open>Analytics view: top directors\<close>

text \<open>
  C5. For all inputs: every row of the join of shows and directors whose director name
  lower-cases to \<open>unknown\<close> is removed before the rows are counted and the ten largest
  counts are taken, so no category of \<open>director_counts\<close>, and of the chart when one is
  drawn, has a name that lower-cases to \<open>unknown\<close>; the count of a category is the number
  of joined rows of that director name.
\<close>

theorem director_counts_exclude_unknown:
  "(\<forall>r\<in>set (df_filtered_directors df_shows df_directors).
       map_option str_lower (director_name (snd r)) \<noteq> Some ''unknown'')
   \<and> director_counts df_shows df_directors
       = nlargest 10 (value_counts (map (\<lambda>r. director_name (snd r))
                                      (df_filtered_directors df_shows df_directors)))
   \<and> (\<forall>n c. (n, c) \<in> set (director_counts df_shows df_directors)
         \<longrightarrow> str_lower n \<noteq> ''unknown''
             \<and> c = length (filter (\<lambda>r. director_name (snd r) = Some n)
                            (df_shows_with_directors df_shows df_directors)))
   \<and> (\<forall>cs. fig_directors df_shows df_directors = St_plotly_chart (Bar cs)
         \<longrightarrow> cs = director_counts df_shows df_directors
             \<and> (\<forall>n c. (n, c) \<in> set cs \<longrightarrow> str_lower n \<noteq> ''unknown''))"
proof -
  let ?J = "df_shows_with_directors df_shows df_directors"
  let ?F = "df_filtered_directors df_shows df_directors"
  let ?col = "map (\<lambda>r. director_name (snd r)) ?F"
  have 1: "\<forall>r\<in>set ?F. map_option str_lower (director_name (snd r)) \<noteq> Some ''unknown''"
    by (simp add: df_filtered_directors_def)
  have 2: "director_counts df_shows df_directors = nlargest 10 (value_counts ?col)"
    by (simp add: director_counts_def)
  have 3: "str_lower n \<noteq> ''unknown''
           \<and> c = length (filter (\<lambda>r. director_name (snd r) = Some n) ?J)"
    if "(n, c) \<in> set (director_counts df_shows df_directors)" for n c
  proof -
    from that have mem: "Some n \<in> set ?col" and c: "c = count_list (dropna ?col) n"
      unfolding 2 by (auto dest: nlargest_value_counts_mem)
    from mem obtain r where r: "r \<in> set ?F" "director_name (snd r) = Some n" by auto
    with 1 have low: "str_lower n \<noteq> ''unknown''" by force
    have "c = length (filter (\<lambda>r. director_name (snd r) = Some n) ?F)"
      unfolding c by (rule count_list_dropna_map)
    also have "\<dots> = length (filter (\<lambda>r. map_option str_lower (director_name (snd r)) \<noteq> Some ''unknown''
                                  \<and> director_name (snd r) = Some n) ?J)"
      by (simp add: df_filtered_directors_def conj_commute)
    also have "\<dots> = length (filter (\<lambda>r. director_name (snd r) = Some n) ?J)"
      using low by (intro arg_cong[where f=length] filter_cong refl) auto
    finally show ?thesis using low by simp
  qed
  have 4: "cs = director_counts df_shows df_directors
           \<and> (\<forall>n c. (n, c) \<in> set cs \<longrightarrow> str_lower n \<noteq> ''unknown'')"
    if "fig_directors df_shows df_directors = (St_plotly_chart (Bar cs) :: 'a element)" for cs
  proof -
    from that have "cs = director_counts df_shows df_directors"
      by (simp add: fig_directors_def split: if_splits)
    with 3 show ?thesis by blast
  qed
  from 1 2 3 4 show ?thesis by blast
qed

lemma director_counts_unknown_example:
  "director_counts df_shows_directed df_directors_unknown = [(''Ana Lee'', 2)]"
  by code_simp

lemma fig_directors_unknown_example:
  "fig_directors df_shows_directed df_directors_unknown
     = (St_plotly_chart (Bar [(''Ana Lee'', 2)]) :: unit element)"
  by code_simp

theorem director_counts_exclude_unknown_witness:
  "fig_directors df_shows_directed df_directors_unknown
     = (St_plotly_chart (Bar [(''Ana Lee'', 2)]) :: unit element)
   \<and> director_counts df_shows_directed df_directors_unknown = [(''Ana Lee'', 2)]
   \<and> str_lower ''Ana Lee'' \<noteq> ''unknown''
   \<and> length (filter (\<lambda>r. director_name (snd r) = Some ''Ana Lee'')
               (df_shows_with_directors df_shows_directed df_directors_unknown)) = 2"
proof -
  have "(''Ana Lee'', 2) \<in> set (director_counts df_shows_directed df_directors_unknown)"
    by (simp add: director_counts_unknown_example)
  with director_counts_exclude_unknown [of df_shows_directed df_directors_unknown, where ?'a = unit]
  have "str_lower ''Ana Lee'' \<noteq> ''unknown''
        \<and> 2 = length (filter (\<lambda>r. director_name (snd r) = Some ''Ana Lee'')
                        (df_shows_with_directors df_shows_directed df_directors_unknown))"
    by blast
  with director_counts_unknown_example fig_directors_unknown_example show ?thesis by simp
qed

section \<open>Analytics view: rating distribution\<close>

text \<open>
  C6. For every \<open>shows\<close> table with at least one non-null \<open>rating\<close>, the rating chart is
  drawn from \<open>rating_counts\<close> of the rows with a rating: at most 10 categories (exactly
  min(10, number of distinct ratings)), in descending order of count, each rating once with
  the number of rows of that rating, and no rating left out has more rows than one kept.
\<close>

theorem rating_counts_top_10:
  assumes tab: "shows_table db = Returns ss"
    and ex: "\<exists>s\<in>set ss. show_row.rating s \<noteq> None"
  shows "fig_rating (df_shows_of db)
           = St_plotly_chart (Bar (rating_counts (df_dropna df_shows_row.rating (df_shows_of db))))
    \<and> length (rating_counts (df_dropna df_shows_row.rating (df_shows_of db))) \<le> 10
    \<and> length (rating_counts (df_dropna df_shows_row.rating (df_shows_of db)))
        = min 10 (card {r. \<exists>s\<in>set ss. show_row.rating s = Some r})
    \<and> sorted_wrt (\<lambda>p q. snd q \<le> snd p) (rating_counts (df_dropna df_shows_row.rating (df_shows_of db)))
    \<and> distinct (map fst (rating_counts (df_dropna df_shows_row.rating (df_shows_of db))))
    \<and> (\<forall>r c. (r, c) \<in> set (rating_counts (df_dropna df_shows_row.rating (df_shows_of db)))
          \<longrightarrow> 0 < c \<and> c = length (filter (\<lambda>s. show_row.rating s = Some r) ss))
    \<and> (\<forall>r r' c'. (\<exists>s\<in>set ss. show_row.rating s = Some r)
          \<and> r \<notin> fst ` set (rating_counts (df_dropna df_shows_row.rating (df_shows_of db)))
          \<and> (r', c') \<in> set (rating_counts (df_dropna df_shows_row.rating (df_shows_of db)))
          \<longrightarrow> length (filter (\<lambda>s. show_row.rating s = Some r) ss) \<le> c')"
proof -
  let ?df = "df_dropna df_shows_row.rating (df_shows_of db)"
  let ?V = "value_counts (map df_shows_row.rating (rows ?df))"
  let ?L = "rating_counts ?df"
  define vals where "vals = dropna (map df_shows_row.rating (rows ?df))"
  have rows_df: "rows (df_shows_of db) = map select_shows ss"
    and cols_df: "columns (df_shows_of db) = df_shows_columns"
    using tab by (simp_all add: df_shows_of_Returns)
  have "vals = dropna (map df_shows_row.rating (map select_shows ss))"
    unfolding vals_def dropna_df_dropna rows_df ..
  then have vals: "vals = dropna (map show_row.rating ss)"
    by (simp add: comp_def)
  have setY: "set vals = {r. \<exists>s\<in>set ss. show_row.rating s = Some r}"
    unfolding vals set_dropna by force
  have cnt: "count_list vals r = length (filter (\<lambda>s. show_row.rating s = Some r) ss)" for r
    unfolding vals by (rule count_list_dropna_map)
  have L_def: "?L = take 10 ?V"
    by (simp add: rating_counts_def nlargest_value_counts)
  have sortedV: "sorted_wrt (\<lambda>p q. snd q \<le> snd p) ?V" by (rule sorted_value_counts)
  have memV: "(r, c) \<in> set ?V \<longleftrightarrow> r \<in> set vals \<and> c = count_list vals r" for r c
    unfolding vals_def set_value_counts set_dropna by simp
  have nonempty: "\<not> df_empty ?df"
    using ex by (auto simp: df_empty_def cols_df rows_df df_shows_columns_def filter_empty_conv)
  have 1: "fig_rating (df_shows_of db) = St_plotly_chart (Bar ?L)"
    using nonempty by (simp add: fig_rating_def Let_def cols_df df_shows_columns_def)
  have lenV: "length ?V = card (set vals)"
    unfolding vals_def by (rule length_value_counts)
  have 3: "length ?L = min 10 (card {r. \<exists>s\<in>set ss. show_row.rating s = Some r})"
    unfolding L_def length_take lenV setY by (rule min.commute)
  then have 2: "length ?L \<le> 10" by simp
  have 4: "sorted_wrt (\<lambda>p q. snd q \<le> snd p) ?L"
    unfolding L_def using sortedV by (rule sorted_wrt_take)
  have "distinct (map fst ?V)" by (rule distinct_value_counts)
  then have 5: "distinct (map fst ?L)"
    unfolding L_def take_map[symmetric] by (rule distinct_take)
  have 6: "0 < c \<and> c = length (filter (\<lambda>s. show_row.rating s = Some r) ss)"
    if "(r, c) \<in> set ?L" for r c
  proof -
    from that have "(r, c) \<in> set ?V" unfolding L_def by (rule in_set_takeD)
    then have "r \<in> set vals" "c = count_list vals r" by (simp_all only: memV)
    moreover from this(1) have "0 < count_list vals r" by (rule count_list_pos)
    ultimately show ?thesis by (simp only: cnt)
  qed
  have 7: "length (filter (\<lambda>s. show_row.rating s = Some r) ss) \<le> c'"
    if "\<exists>s\<in>set ss. show_row.rating s = Some r" "r \<notin> fst ` set ?L" "(r', c') \<in> set ?L" for r r' c'
  proof -
    from that(1) have "r \<in> set vals" unfolding setY by simp
    then have inV: "(r, count_list vals r) \<in> set ?V" unfolding memV by simp
    from that(2) have notL: "(r, count_list vals r) \<notin> set (take 10 ?V)"
      unfolding L_def by force
    from that(3) have inL: "(r', c') \<in> set (take 10 ?V)" unfolding L_def .
    from take_keeps_first[OF sortedV inL inV notL] show ?thesis by (simp add: cnt)
  qed
  from 1 2 3 4 5 6 7 show ?thesis by blast
qed

lemma rating_counts_12_ratings:
  "rating_counts (df_dropna df_shows_row.rating (df_shows_of (db_of_shows shows_12_ratings)))
     = [(''TV-MA'', 12), (''TV-14'', 11), (''TV-PG'', 10), (''R'', 9), (''PG-13'', 8),
        (''TV-Y7'', 7), (''TV-Y'', 6), (''PG'', 5), (''TV-G'', 4), (''NR'', 3)]"
  by code_simp

theorem rating_counts_top_10_witness:
  "shows_table (db_of_shows shows_12_ratings) = Returns shows_12_ratings
   \<and> fig_rating (df_shows_of (db_of_shows shows_12_ratings))
       = (St_plotly_chart (Bar [(''TV-MA'', 12), (''TV-14'', 11), (''TV-PG'', 10), (''R'', 9),
            (''PG-13'', 8), (''TV-Y7'', 7), (''TV-Y'', 6), (''PG'', 5), (''TV-G'', 4), (''NR'', 3)])
          :: unit element)
   \<and> length (rating_counts
               (df_dropna df_shows_row.rating (df_shows_of (db_of_shows shows_12_ratings)))) \<le> 10"
proof -
  have tab: "shows_table (db_of_shows shows_12_ratings) = Returns shows_12_ratings"
    by (simp add: db_of_shows_def)
  have "a_show 0\<lparr>show_row.rating := Some ''NC-17''\<rparr> \<in> set shows_12_ratings"
    by (simp add: shows_12_ratings_def)
  then have ex: "\<exists>s\<in>set shows_12_ratings. show_row.rating s \<noteq> None"
    by (rule bexI[rotated]) simp
  note inst = rating_counts_top_10 [OF tab ex, where ?'a = unit]
  from inst have "fig_rating (df_shows_of (db_of_shows shows_12_ratings))
       = (St_plotly_chart (Bar (rating_counts
            (df_dropna df_shows_row.rating (df_shows_of (db_of_shows shows_12_ratings)))))
          :: unit element)"
    by (rule conjunct1)
  then have fig: "fig_rating (df_shows_of (db_of_shows shows_12_ratings))
       = (St_plotly_chart (Bar [(''TV-MA'', 12), (''TV-14'', 11), (''TV-PG'', 10), (''R'', 9),
            (''PG-13'', 8), (''TV-Y7'', 7), (''TV-Y'', 6), (''PG'', 5), (''TV-G'', 4), (''NR'', 3)])
          :: unit element)"
    by (simp only: rating_counts_12_ratings)
  from inst have "length (rating_counts
               (df_dropna df_shows_row.rating (df_shows_of (db_of_shows shows_12_ratings)))) \<le> 10"
    by blast
  with tab fig show ?thesis by blast
qed

section \<open>Properties of the query executor\<close>

text \<open>
  C7. For every connection, statement and parameter tuple: when executing the statement
  raises, \<open>run_query\<close> returns (nothing is raised past it), the banners it emitted are the
  two error banners, the first naming the failed statement and the second the error, and the
  returned table is \<open>pd.DataFrame()\<close>: no rows and no columns.
\<close>

theorem run_query_catches_error:
  fixes conn :: "string \<Rightarrow> param list \<Rightarrow> 'r dataframe outcome"
  assumes "conn query params = Raises e"
  shows "(run_query conn query params :: 'e element list \<times> 'r dataframe) =
           ([St_error (''Error al ejecutar la consulta: '' @ query),
             St_error (''Detalles del error: '' @ e)], empty_dataframe)
         \<and> rows (snd (run_query conn query params :: 'e element list \<times> 'r dataframe)) = []
         \<and> columns (snd (run_query conn query params :: 'e element list \<times> 'r dataframe)) = []
         \<and> df_empty (snd (run_query conn query params :: 'e element list \<times> 'r dataframe))"
  using assms by (simp add: run_query_def empty_dataframe_def df_empty_def)

theorem run_query_catches_error_witness:
  "(\<lambda>q ps. Raises ''relation does not exist'') ''SELECT * FROM nowhere;'' ([] :: param list)
     = (Raises ''relation does not exist'' :: unit dataframe outcome)
   \<and> (run_query (\<lambda>q ps. Raises ''relation does not exist'') ''SELECT * FROM nowhere;'' []
         :: unit element list \<times> unit dataframe)
       = ([St_error ''Error al ejecutar la consulta: SELECT * FROM nowhere;'',
           St_error ''Detalles del error: relation does not exist''],
          empty_dataframe)
   \<and> rows (snd (run_query (\<lambda>q ps. Raises ''relation does not exist'') ''SELECT * FROM nowhere;'' []
                  :: unit element list \<times> unit dataframe)) = []
   \<and> columns (snd (run_query (\<lambda>q ps. Raises ''relation does not exist'') ''SELECT * FROM nowhere;'' []
                  :: unit element list \<times> unit dataframe)) = []"
  using run_query_catches_error
    [where ?'e = unit and ?'r = unit and conn = "\<lambda>q ps. Raises ''relation does not exist''"
       and query = "''SELECT * FROM nowhere;''" and params = "[]"
       and e = "''relation does not exist''"]
  by (simp add: empty_dataframe_def)

section \<open>Search view: titles that contain the term\<close>





section \<open>Home view: titles added in a year\<close>

text \<open>
  C9 (as amended). On confirmation of a year other than 0, with the \<open>shows\<close> table
  readable: the grouped count has one row per
  type among the titles added in that year, with their number; when it has rows, one
  success message is shown, its header followed by one summary line per row, in the order
  in which the database lists the groups; when it has none, the informational message is
  shown instead. A summary line names \<open>Movie\<close> as \<open>Peliculas\<close> (with its accent),
  \<open>TV Show\<close> as \<open>Series de TV\<close>, shows any other type \<open>s\<close> as \<open>s\<close> itself, and a null
  type as \<open>None\<close>. On confirmation of the year 0, which \<open>if year_input:\<close> takes as no
  year, a warning is shown and no count is made. On the fact table of the scenario, year
  2020 gives the header and the two lines of one movie and one series, in either order, and
  year 2021 gives the informational message.
\<close>

lemma scenario_counts:
  "year_added_counts shows_scenario 2020 = [(Some ''Movie'', 1), (Some ''TV Show'', 1)]"
  "year_added_counts shows_scenario 2021 = []"
  by code_simp+

lemma scenario_strings:
  "year_header 2020 = ''En el a'' @ [CHR 0xF1] @ ''o 2020 se a'' @ [CHR 0xF1] @ ''adieron:'' @ [CHR 0x0A]"
  "none_found 2021 = ''No se encontraron t'' @ [CHR 0xED] @ ''tulos a'' @ [CHR 0xF1]
                      @ ''adidos en el a'' @ [CHR 0xF1] @ ''o 2021.''"
  "summary_line (Some ''Movie'', 1) = ''- 1 Pel'' @ [CHR 0xED] @ ''culas'' @ [CHR 0x0A]"
  "summary_line (Some ''TV Show'', 1) = ''- 1 Series de TV'' @ [CHR 0x0A]"
  by code_simp+

theorem home_year_button_summary:
  assumes tab: "shows_table db = Returns ss"
  shows "(year_input \<noteq> 0 \<and> year_added_counts ss year_input \<noteq> [] \<longrightarrow>
            home_year_button db year_input
              = [St_success (year_header year_input
                   @ concat (map summary_line (group_order db year_input (year_added_counts ss year_input))))
                 :: 'a element])
    \<and> (year_input \<noteq> 0 \<and> year_added_counts ss year_input = [] \<longrightarrow>
            home_year_button db year_input = [St_info (none_found year_input) :: 'a element])
    \<and> (year_input = 0 \<longrightarrow>
            home_year_button db year_input
              = [St_warning (''Por favor, ingresa un a'' @ [CHR 0xF1] @ ''o v'' @ [CHR 0xE1] @ ''lido.'')
                 :: 'a element])
    \<and> distinct (map fst (group_order db year_input (year_added_counts ss year_input)))
    \<and> (\<forall>t c. (t, c) \<in> set (group_order db year_input (year_added_counts ss year_input)) \<longleftrightarrow>
          0 < c \<and> c = length (filter (\<lambda>s. show_row.year_added s = Some year_input
                                          \<and> show_row.type s = t) ss))
    \<and> summary_line (Some ''Movie'', c)
        = ''- '' @ str_nat c @ '' Pel'' @ [CHR 0xED] @ ''culas'' @ [CHR 0x0A]
    \<and> summary_line (Some ''TV Show'', c) = ''- '' @ str_nat c @ '' Series de TV'' @ [CHR 0x0A]
    \<and> (other \<noteq> ''Movie'' \<and> other \<noteq> ''TV Show'' \<longrightarrow>
          summary_line (Some other, c) = ''- '' @ str_nat c @ '' '' @ other @ [CHR 0x0A])
    \<and> summary_line (None, c) = ''- '' @ str_nat c @ '' None'' @ [CHR 0x0A]
    \<and> (ss = shows_scenario \<longrightarrow>
          (home_year_button db 2020
             = [St_success (''En el a'' @ [CHR 0xF1] @ ''o 2020 se a'' @ [CHR 0xF1] @ ''adieron:''
                  @ [CHR 0x0A] @ ''- 1 Pel'' @ [CHR 0xED] @ ''culas'' @ [CHR 0x0A]
                  @ ''- 1 Series de TV'' @ [CHR 0x0A]) :: 'a element]
           \<or> home_year_button db 2020
             = [St_success (''En el a'' @ [CHR 0xF1] @ ''o 2020 se a'' @ [CHR 0xF1] @ ''adieron:''
                  @ [CHR 0x0A] @ ''- 1 Series de TV'' @ [CHR 0x0A]
                  @ ''- 1 Pel'' @ [CHR 0xED] @ ''culas'' @ [CHR 0x0A]) :: 'a element])
          \<and> home_year_button db 2021
             = [St_info (''No se encontraron t'' @ [CHR 0xED] @ ''tulos a'' @ [CHR 0xF1]
                  @ ''adidos en el a'' @ [CHR 0xF1] @ ''o 2021.'') :: 'a element])"
proof -
  let ?G = "year_added_counts ss year_input"
  let ?sel = "filter (\<lambda>s. show_row.year_added s = Some year_input) ss"
  have 1: "home_year_button db y
             = [St_success (year_header y
                  @ concat (map summary_line (group_order db y (year_added_counts ss y)))) :: 'a element]"
    if "y \<noteq> 0" and "year_added_counts ss y \<noteq> []" for y
  proof -
    from that(2) have "group_order db y (year_added_counts ss y) \<noteq> []"
      by (simp only: group_order_Nil not_False_eq_True)
    with that(1) show ?thesis
      by (simp add: home_year_button_def run_query_year_added[OF tab] df_empty_def)
  qed
  have 2: "home_year_button db y = [St_info (none_found y) :: 'a element]"
    if "y \<noteq> 0" and "year_added_counts ss y = []" for y
  proof -
    from that(2) have "group_order db y (year_added_counts ss y) = []"
      by (simp only: group_order_Nil)
    with that(1) show ?thesis
      by (simp add: home_year_button_def run_query_year_added[OF tab] df_empty_def)
  qed
  have 3: "home_year_button db year_input
              = [St_warning (''Por favor, ingresa un a'' @ [CHR 0xF1] @ ''o v'' @ [CHR 0xE1] @ ''lido.'')
                 :: 'a element]"
    if "year_input = 0"
    using that by (simp add: home_year_button_def)
  have "distinct (map fst ?G)"
    unfolding year_added_counts_def by (rule distinct_group_count)
  then have 4: "distinct (map fst (group_order db year_input ?G))"
    by (simp only: distinct_group_order)
  have 5: "(t, c) \<in> set (group_order db year_input ?G) \<longleftrightarrow>
          0 < c \<and> c = length (filter (\<lambda>s. show_row.year_added s = Some year_input
                                          \<and> show_row.type s = t) ss)" for t c
  proof -
    have st: "set (group_order db year_input ?G) = set ?G"
      by (rule set_group_order)
    have cnt: "count_list (map show_row.type ?sel) t
               = length (filter (\<lambda>s. show_row.year_added s = Some year_input \<and> show_row.type s = t) ss)"
      by (rule count_list_map_filter)
    have "t \<in> set (map show_row.type ?sel) \<longleftrightarrow> 0 < count_list (map show_row.type ?sel) t"
      by (metis count_list_0_iff gr0I less_numeral_extra(3))
    then have "(t, c) \<in> set ?G \<longleftrightarrow>
          0 < c \<and> c = length (filter (\<lambda>s. show_row.year_added s = Some year_input
                                          \<and> show_row.type s = t) ss)"
      unfolding year_added_counts_def set_group_count cnt by auto
    then show ?thesis unfolding st .
  qed
  have 6: "summary_line (Some ''Movie'', c)
        = ''- '' @ str_nat c @ '' Pel'' @ [CHR 0xED] @ ''culas'' @ [CHR 0x0A]"
    and 7: "summary_line (Some ''TV Show'', c) = ''- '' @ str_nat c @ '' Series de TV'' @ [CHR 0x0A]"
    and 8: "other \<noteq> ''Movie'' \<and> other \<noteq> ''TV Show'' \<longrightarrow>
          summary_line (Some other, c) = ''- '' @ str_nat c @ '' '' @ other @ [CHR 0x0A]"
    and 9: "summary_line (None, c) = ''- '' @ str_nat c @ '' None'' @ [CHR 0x0A]"
    by (simp_all add: summary_line_def tipo_def)
  have 10: "(home_year_button db 2020
             = [St_success (''En el a'' @ [CHR 0xF1] @ ''o 2020 se a'' @ [CHR 0xF1] @ ''adieron:''
                  @ [CHR 0x0A] @ ''- 1 Pel'' @ [CHR 0xED] @ ''culas'' @ [CHR 0x0A]
                  @ ''- 1 Series de TV'' @ [CHR 0x0A]) :: 'a element]
           \<or> home_year_button db 2020
             = [St_success (''En el a'' @ [CHR 0xF1] @ ''o 2020 se a'' @ [CHR 0xF1] @ ''adieron:''
                  @ [CHR 0x0A] @ ''- 1 Series de TV'' @ [CHR 0x0A]
                  @ ''- 1 Pel'' @ [CHR 0xED] @ ''culas'' @ [CHR 0x0A]) :: 'a element])
          \<and> home_year_button db 2021
             = [St_info (''No se encontraron t'' @ [CHR 0xED] @ ''tulos a'' @ [CHR 0xF1]
                  @ ''adidos en el a'' @ [CHR 0xF1] @ ''o 2021.'') :: 'a element]"
    (is ?scenario) if ss: "ss = shows_scenario"
  proof -
    let ?a = "(Some ''Movie'', 1 :: nat)"
    let ?b = "(Some ''TV Show'', 1 :: nat)"
    define ys where "ys = group_order db 2020 (year_added_counts ss 2020)"
    have G: "year_added_counts ss 2020 = [?a, ?b]" and G': "year_added_counts ss 2021 = []"
      unfolding ss by (rule scenario_counts)+
    have ys: "ys = [?a, ?b] \<or> ys = [?b, ?a]"
      unfolding ys_def G by (rule group_order_two)
    have "home_year_button db 2020
            = [St_success (year_header 2020 @ concat (map summary_line ys)) :: 'a element]"
      unfolding ys_def by (rule 1) (simp_all add: G)
    with ys have A: "home_year_button db 2020
             = [St_success (year_header 2020 @ summary_line ?a @ summary_line ?b) :: 'a element]
           \<or> home_year_button db 2020
             = [St_success (year_header 2020 @ summary_line ?b @ summary_line ?a) :: 'a element]"
      by auto
    have B: "home_year_button db 2021 = [St_info (none_found 2021) :: 'a element]"
      by (rule 2) (simp_all add: G')
    from A B show ?thesis
      unfolding scenario_strings by simp
  qed
  have i1: "year_input \<noteq> 0 \<and> year_added_counts ss year_input \<noteq> [] \<longrightarrow>
            home_year_button db year_input
              = [St_success (year_header year_input
                   @ concat (map summary_line (group_order db year_input (year_added_counts ss year_input))))
                 :: 'a element]"
    using 1[of year_input] by blast
  have i2: "year_input \<noteq> 0 \<and> year_added_counts ss year_input = [] \<longrightarrow>
            home_year_button db year_input = [St_info (none_found year_input) :: 'a element]"
    using 2[of year_input] by blast
  have i3: "year_input = 0 \<longrightarrow>
            home_year_button db year_input
              = [St_warning (''Por favor, ingresa un a'' @ [CHR 0xF1] @ ''o v'' @ [CHR 0xE1] @ ''lido.'')
                 :: 'a element]"
    using 3 by (rule impI)
  have i5: "\<forall>t c. (t, c) \<in> set (group_order db year_input ?G) \<longleftrightarrow>
          0 < c \<and> c = length (filter (\<lambda>s. show_row.year_added s = Some year_input
                                          \<and> show_row.type s = t) ss)"
    using 5 by (intro allI)
  have i10: "ss = shows_scenario \<longrightarrow> ?scenario"
    using 10 by (rule impI)
  show ?thesis
    by (intro conjI) (rule i1 i2 i3 4 i5 6 7 8 9 i10)+
qed

theorem home_year_button_summary_witness:
  "shows_table (db_of_shows shows_scenario) = Returns shows_scenario
   \<and> year_added_counts shows_scenario 2020 = [(Some ''Movie'', 1), (Some ''TV Show'', 1)]
   \<and> home_year_button (db_of_shows shows_scenario) 2020
       = [St_success (year_header 2020
            @ concat (map summary_line [(Some ''Movie'', 1), (Some ''TV Show'', 1)])) :: unit element]
   \<and> year_added_counts shows_scenario 2021 = []
   \<and> home_year_button (db_of_shows shows_scenario) 2021
       = [St_info (none_found 2021) :: unit element]
   \<and> home_year_button (db_of_shows shows_scenario) 0
       = [St_warning (''Por favor, ingresa un a'' @ [CHR 0xF1] @ ''o v'' @ [CHR 0xE1] @ ''lido.'')
          :: unit element]
   \<and> summary_line (Some ''Documentary'', 7) = ''- 7 Documentary'' @ [CHR 0x0A]"
proof -
  have tab: "shows_table (db_of_shows shows_scenario) = Returns shows_scenario"
    by (simp add: db_of_shows_def)
  have same: "group_order (db_of_shows shows_scenario) 2020
                [(Some ''Movie'', 1), (Some ''TV Show'', 1)]
              = [(Some ''Movie'', 1), (Some ''TV Show'', 1)]"
    by (simp add: group_order_def db_of_shows_def)
  have counts: "year_added_counts shows_scenario 2020 = [(Some ''Movie'', 1), (Some ''TV Show'', 1)]"
    and none: "year_added_counts shows_scenario 2021 = []"
    by (rule scenario_counts)+
  note inst = home_year_button_summary [OF tab, where ?'a = unit]
  have some: "(2020 :: int) \<noteq> 0 \<and> year_added_counts shows_scenario 2020 \<noteq> []"
    by (simp add: counts)
  have "home_year_button (db_of_shows shows_scenario) 2020
       = [St_success (year_header 2020
            @ concat (map summary_line (group_order (db_of_shows shows_scenario) 2020
                (year_added_counts shows_scenario 2020)))) :: unit element]"
    by (rule inst [where year_input = 2020, THEN conjunct1, THEN mp, OF some])
  then have msg: "home_year_button (db_of_shows shows_scenario) 2020
       = [St_success (year_header 2020
            @ concat (map summary_line [(Some ''Movie'', 1), (Some ''TV Show'', 1)])) :: unit element]"
    by (simp only: counts same)
  have no: "(2021 :: int) \<noteq> 0 \<and> year_added_counts shows_scenario 2021 = []"
    by (simp add: none)
  have info: "home_year_button (db_of_shows shows_scenario) 2021
       = [St_info (none_found 2021) :: unit element]"
    by (rule inst [where year_input = 2021, THEN conjunct2, THEN conjunct1, THEN mp, OF no])
  have warn: "home_year_button (db_of_shows shows_scenario) 0
       = [St_warning (''Por favor, ingresa un a'' @ [CHR 0xF1] @ ''o v'' @ [CHR 0xE1] @ ''lido.'')
          :: unit element]"
    by (rule inst [where year_input = 0, THEN conjunct2, THEN conjunct2, THEN conjunct1,
                   THEN mp, OF refl])
  have other: "''Documentary'' \<noteq> ''Movie'' \<and> ''Documentary'' \<noteq> ''TV Show''"
    by simp
  have "summary_line (Some ''Documentary'', 7)
          = ''- '' @ str_nat 7 @ '' '' @ ''Documentary'' @ [CHR 0x0A]"
    by (rule inst [where other = "''Documentary''" and c = 7,
                   THEN conjunct2, THEN conjunct2, THEN conjunct2, THEN conjunct2,
                   THEN conjunct2, THEN conjunct2, THEN conjunct2, THEN conjunct1,
                   THEN mp, OF other])
  then have line: "summary_line (Some ''Documentary'', 7) = ''- 7 Documentary'' @ [CHR 0x0A]"
    by simp
  from tab counts msg none info warn line show ?thesis
    by (intro conjI) assumption+
qed

text \<open>
  The claim as stated (upon confirmation of a year, whichever it is) fails at the year 0:
  the table holds a movie added in year 0, the grouped count of year 0 has one row, and
  the view computes no count and shows a warning, neither summary lines nor the
  informational message.
\<close>

theorem home_year_zero_counterexample:
  "year_added_counts shows_year_zero 0 = [(Some ''Movie'', 1)]
   \<and> home_year_button (db_of_shows shows_year_zero) 0
       = [St_warning (''Por favor, ingresa un a'' @ [CHR 0xF1] @ ''o v'' @ [CHR 0xE1] @ ''lido.'')
          :: unit element]"
  by code_simp
section \<open>Analytics view: top cast members, countries and genres\<close>

text \<open>
  C10 (as amended). For every bridge and dimension table, \<open>cast_counts\<close>, \<open>country_counts\<close>
  and \<open>genre_counts\<close> are the 10 largest counts of the rows of the inner join of the bridge
  with its dimension table, by name: every pair of a bridge row and a dimension row with
  the same id contributes 1 to the count of the dimension row's name (\<open>pairs_named\<close>), and
  the chart is the top 10 of these counts (\<open>top_counts\<close>). When the dimension ids are
  unique, that count is the number of bridge rows whose dimension row has the name: each
  bridge row contributes exactly 1 to the count of its name, a repeated bridge row each
  time (shows are not deduplicated), a bridge row without dimension row nothing. When an
  id is on several dimension rows, a bridge row with that id contributes once for each of
  them.
\<close>

theorem dimension_counts_over_inner_join:
  "top_counts 10
      (pairs_named show_cast_member_row.cast_member_id cast_member_row.cast_member_id
         cast_member_name (rows df_show_cast) (rows df_cast_members))
      (cast_counts df_show_cast df_cast_members)
   \<and> (distinct (map cast_member_row.cast_member_id (rows df_cast_members)) \<longrightarrow>
        (\<forall>n. pairs_named show_cast_member_row.cast_member_id cast_member_row.cast_member_id
                cast_member_name (rows df_show_cast) (rows df_cast_members) n
            = bridge_rows_named show_cast_member_row.cast_member_id cast_member_row.cast_member_id
                cast_member_name (rows df_show_cast) (rows df_cast_members) n))
   \<and> top_counts 10
      (pairs_named show_country_row.country_id country_row.country_id
         country_name (rows df_show_countries) (rows df_countries))
      (country_counts df_show_countries df_countries)
   \<and> (distinct (map country_row.country_id (rows df_countries)) \<longrightarrow>
        (\<forall>n. pairs_named show_country_row.country_id country_row.country_id
                country_name (rows df_show_countries) (rows df_countries) n
            = bridge_rows_named show_country_row.country_id country_row.country_id
                country_name (rows df_show_countries) (rows df_countries) n))
   \<and> top_counts 10
      (pairs_named show_genre_row.genre_id genre_row.genre_id
         genre_name (rows df_show_genres) (rows df_genres))
      (genre_counts df_show_genres df_genres)
   \<and> (distinct (map genre_row.genre_id (rows df_genres)) \<longrightarrow>
        (\<forall>n. pairs_named show_genre_row.genre_id genre_row.genre_id
                genre_name (rows df_show_genres) (rows df_genres) n
            = bridge_rows_named show_genre_row.genre_id genre_row.genre_id
                genre_name (rows df_show_genres) (rows df_genres) n))"
proof -
  have 1: "top_counts 10
      (pairs_named show_cast_member_row.cast_member_id cast_member_row.cast_member_id
         cast_member_name (rows df_show_cast) (rows df_cast_members))
      (cast_counts df_show_cast df_cast_members)"
    unfolding cast_counts_def pairs_named_join[symmetric]
    by (rule top_counts_nlargest_value_counts)
  have 2: "top_counts 10
      (pairs_named show_country_row.country_id country_row.country_id
         country_name (rows df_show_countries) (rows df_countries))
      (country_counts df_show_countries df_countries)"
    unfolding country_counts_def pairs_named_join[symmetric]
    by (rule top_counts_nlargest_value_counts)
  have 3: "top_counts 10
      (pairs_named show_genre_row.genre_id genre_row.genre_id
         genre_name (rows df_show_genres) (rows df_genres))
      (genre_counts df_show_genres df_genres)"
    unfolding genre_counts_def pairs_named_join[symmetric]
    by (rule top_counts_nlargest_value_counts)
  show ?thesis
    by (intro conjI impI allI) (rule 1 2 3 | erule pairs_named_distinct)+
qed

lemma dimension_counts_examples:
  "cast_counts df_show_cast_example df_cast_members_example = [(''Ana'', 3), (''Bo'', 1)]"
  "country_counts df_show_countries_example df_countries_example = [(''Peru'', 3), (''Chile'', 1)]"
  "genre_counts df_show_genres_example df_genres_example = [(''Drama'', 3), (''Comedy'', 1)]"
  by code_simp+

theorem dimension_counts_over_inner_join_witness:
  "cast_counts df_show_cast_example df_cast_members_example = [(''Ana'', 3), (''Bo'', 1)]
   \<and> distinct (map cast_member_row.cast_member_id (rows df_cast_members_example))
   \<and> pairs_named show_cast_member_row.cast_member_id cast_member_row.cast_member_id
        cast_member_name (rows df_show_cast_example) (rows df_cast_members_example) ''Ana'' = 3
   \<and> bridge_rows_named show_cast_member_row.cast_member_id cast_member_row.cast_member_id
        cast_member_name (rows df_show_cast_example) (rows df_cast_members_example) ''Ana'' = 3
   \<and> country_counts df_show_countries_example df_countries_example = [(''Peru'', 3), (''Chile'', 1)]
   \<and> distinct (map country_row.country_id (rows df_countries_example))
   \<and> pairs_named show_country_row.country_id country_row.country_id
        country_name (rows df_show_countries_example) (rows df_countries_example) ''Peru'' = 3
   \<and> bridge_rows_named show_country_row.country_id country_row.country_id
        country_name (rows df_show_countries_example) (rows df_countries_example) ''Peru'' = 3
   \<and> genre_counts df_show_genres_example df_genres_example = [(''Drama'', 3), (''Comedy'', 1)]
   \<and> distinct (map genre_row.genre_id (rows df_genres_example))
   \<and> pairs_named show_genre_row.genre_id genre_row.genre_id
        genre_name (rows df_show_genres_example) (rows df_genres_example) ''Drama'' = 3
   \<and> bridge_rows_named show_genre_row.genre_id genre_row.genre_id
        genre_name (rows df_show_genres_example) (rows df_genres_example) ''Drama'' = 3"
proof -
  note inst = dimension_counts_over_inner_join
    [of df_show_cast_example df_cast_members_example
        df_show_countries_example df_countries_example
        df_show_genres_example df_genres_example]
  have d1: "distinct (map cast_member_row.cast_member_id (rows df_cast_members_example))"
    by (simp add: df_cast_members_example_def)
  have d2: "distinct (map country_row.country_id (rows df_countries_example))"
    by (simp add: df_countries_example_def)
  have d3: "distinct (map genre_row.genre_id (rows df_genres_example))"
    by (simp add: df_genres_example_def)
  have m1: "(''Ana'', 3) \<in> set (cast_counts df_show_cast_example df_cast_members_example)"
    by (simp add: dimension_counts_examples)
  have m2: "(''Peru'', 3) \<in> set (country_counts df_show_countries_example df_countries_example)"
    by (simp add: dimension_counts_examples)
  have m3: "(''Drama'', 3) \<in> set (genre_counts df_show_genres_example df_genres_example)"
    by (simp add: dimension_counts_examples)
  from inst m1 have p1:
    "pairs_named show_cast_member_row.cast_member_id cast_member_row.cast_member_id
        cast_member_name (rows df_show_cast_example) (rows df_cast_members_example) ''Ana'' = 3"
    unfolding top_counts_def by metis
  from inst m2 have p2:
    "pairs_named show_country_row.country_id country_row.country_id
        country_name (rows df_show_countries_example) (rows df_countries_example) ''Peru'' = 3"
    unfolding top_counts_def by metis
  from inst m3 have p3:
    "pairs_named show_genre_row.genre_id genre_row.genre_id
        genre_name (rows df_show_genres_example) (rows df_genres_example) ''Drama'' = 3"
    unfolding top_counts_def by metis
  from inst d1 p1 have b1:
    "bridge_rows_named show_cast_member_row.cast_member_id cast_member_row.cast_member_id
        cast_member_name (rows df_show_cast_example) (rows df_cast_members_example) ''Ana'' = 3"
    by metis
  from inst d2 p2 have b2:
    "bridge_rows_named show_country_row.country_id country_row.country_id
        country_name (rows df_show_countries_example) (rows df_countries_example) ''Peru'' = 3"
    by metis
  from inst d3 p3 have b3:
    "bridge_rows_named show_genre_row.genre_id genre_row.genre_id
        genre_name (rows df_show_genres_example) (rows df_genres_example) ''Drama'' = 3"
    by metis
  from dimension_counts_examples d1 p1 b1 d2 p2 b2 d3 p3 b3 show ?thesis
    by (intro conjI) assumption+
qed

text \<open>
  The claim as stated (each bridge row contributes exactly 1, for every bridge and
  dimension table) fails when the dimension table holds an id twice: the only bridge row
  is counted twice.
\<close>

theorem dimension_counts_duplicate_id_counterexample:
  "length (rows df_show_cast_one) = 1
   \<and> cast_counts df_show_cast_one df_cast_members_twice = [(''Ana'', 2)]"
  by code_simp
end
